theory Spec2Isabelle
  imports Main "HOL-Library.Multiset"
begin

section \<open>Values, sinks and option dictionaries\<close>

text \<open>
  The driver (\<^verbatim>\<open>src/app/logging_driver.py\<close>) passes keyword dictionaries around. A
  dictionary is a map from key strings to Python values; the values that the driver
  inspects or builds are \<^verbatim>\<open>None\<close>, booleans, integers, strings and lists of handler
  objects. A handler built by the driver is recorded by its constructor together with
  the arguments and the \<^verbatim>\<open>setFormatter\<close>/\<^verbatim>\<open>setLevel\<close> calls the driver makes on it; a
  handler object built by the caller is \<open>Handler i\<close>, \<open>i\<close> being its identity. \<open>PObj n\<close> is
  any other object that is truthy, such as the dictionary \<^verbatim>\<open>logging._STYLES\<close>.
\<close>

datatype stream = Stdout | Stderr

datatype pyval =
    PNone | PBool bool | PInt int | PStr string | PHandlers "handler list" | PObj string
  and formatter = Formatter pyval pyval
  and handler =
      StreamHandler stream formatter pyval
    | RotatingFileHandler string pyval pyval pyval formatter pyval
    | Handler nat

type_synonym config = "string \<rightharpoonup> pyval"

datatype error =
    KeyError string
  | TypeError
  | ValueError
  | FileNotFoundError
  | FileExistsError
  | NotADirectoryError
  | IsADirectoryError

text \<open>Python truthiness, as \<^verbatim>\<open>if x\<close>, \<^verbatim>\<open>not x\<close> and \<^verbatim>\<open>x or y\<close> use it.\<close>

fun truthy :: "pyval \<Rightarrow> bool" where
  "truthy PNone = False"
| "truthy (PBool b) = b"
| "truthy (PInt i) = (i \<noteq> 0)"
| "truthy (PStr s) = (s \<noteq> [])"
| "truthy (PHandlers hs) = (hs \<noteq> [])"
| "truthy (PObj n) = True"

text \<open>\<^verbatim>\<open>d.get(k, default)\<close>\<close>

definition dict_get :: "config \<Rightarrow> string \<Rightarrow> pyval \<Rightarrow> pyval" where
  "dict_get d k dflt = (case d k of Some v \<Rightarrow> v | None \<Rightarrow> dflt)"

text \<open>The level constants of the logging runtime that the driver names.\<close>

definition DEBUG :: int where "DEBUG = 10"
definition INFO :: int where "INFO = 20"
definition WARNING :: int where "WARNING = 30"
definition ERROR :: int where "ERROR = 40"
definition CRITICAL :: int where "CRITICAL = 50"

section \<open>Paths and the file system\<close>

text \<open>
  The driver calls \<^verbatim>\<open>os.path.dirname\<close>, \<^verbatim>\<open>Path(p).mkdir(exist_ok=True)\<close> and
  \<^verbatim>\<open>str(Path(d) / 'application.log')\<close>. Paths are POSIX paths; a directory is named by
  the components of its path as \<^verbatim>\<open>PurePosixPath.parts\<close> gives them. The model covers
  paths without \<^verbatim>\<open>..\<close> components and without symbolic links, and a working directory
  that exists.
\<close>

text \<open>\<^verbatim>\<open>s.split(sep)\<close>\<close>

fun split_on :: "char \<Rightarrow> string \<Rightarrow> string list" where
  "split_on sep [] = [[]]"
| "split_on sep (c # cs) =
     (if c = sep then [] # split_on sep cs
      else (case split_on sep cs of
              [] \<Rightarrow> [[c]]
            | p # ps \<Rightarrow> (c # p) # ps))"

text \<open>\<^verbatim>\<open>sep.join(parts)\<close>\<close>

fun join :: "string \<Rightarrow> string list \<Rightarrow> string" where
  "join sep [] = []"
| "join sep [p] = p"
| "join sep (p # q # ps) = p @ sep @ join sep (q # ps)"

text \<open>
  \<^verbatim>\<open>PurePosixPath(p).parts\<close>: the root (\<^verbatim>\<open>/\<close>, or \<^verbatim>\<open>//\<close> for exactly two leading
  slashes) followed by the components that are neither empty nor \<^verbatim>\<open>.\<close>.
\<close>

definition path_parts :: "string \<Rightarrow> string list" where
  "path_parts p =
     (let n = length (takeWhile (\<lambda>c. c = CHR ''/'') p);
          rt = (if n = 0 then [] else if n = 2 then [''//''] else [''/''])
      in rt @ filter (\<lambda>s. s \<noteq> [] \<and> s \<noteq> ''.'') (split_on CHR ''/'' p))"

text \<open>\<^verbatim>\<open>str(path)\<close> of a path given by its parts.\<close>

definition path_str :: "string list \<Rightarrow> string" where
  "path_str ps =
     (case ps of
        [] \<Rightarrow> ''.''
      | r # rest \<Rightarrow>
          (if r = ''/'' \<or> r = ''//'' then r @ join ''/'' rest else join ''/'' ps))"

text \<open>
  \<^verbatim>\<open>os.path.dirname(p)\<close>: everything up to and including the last slash, with the
  trailing slashes removed unless it consists of slashes only.
\<close>

definition dirname :: "string \<Rightarrow> string" where
  "dirname p =
     (let head = rev (dropWhile (\<lambda>c. c \<noteq> CHR ''/'') (rev p))
      in if head \<noteq> [] \<and> head \<noteq> replicate (length head) CHR ''/''
         then rev (dropWhile (\<lambda>c. c = CHR ''/'') (rev head))
         else head)"

record filesystem =
  dirs :: "string list set"
  files :: "string list set"

definition is_dir :: "filesystem \<Rightarrow> string list \<Rightarrow> bool" where
  "is_dir f p = (p = [] \<or> p = [''/''] \<or> p = [''//''] \<or> p \<in> dirs f)"

text \<open>
  The proper ancestors of a path, nearest to the root first: \<^verbatim>\<open>a\<close> and \<^verbatim>\<open>a/b\<close> for
  \<^verbatim>\<open>a/b/c\<close>.
\<close>

fun prefixes_from :: "string list \<Rightarrow> string list \<Rightarrow> string list list" where
  "prefixes_from acc [] = []"
| "prefixes_from acc [x] = []"
| "prefixes_from acc (x # y # ys) = (acc @ [x]) # prefixes_from (acc @ [x]) (y # ys)"

definition ancestors :: "string list \<Rightarrow> string list list" where
  "ancestors p = prefixes_from [] p"

text \<open>
  The system resolves a path from the root on: the first ancestor that is a regular file
  gives \<^verbatim>\<open>NotADirectoryError\<close>, the first that does not exist \<^verbatim>\<open>FileNotFoundError\<close>.
\<close>

fun walk :: "filesystem \<Rightarrow> string list list \<Rightarrow> error option" where
  "walk f [] = None"
| "walk f (a # as) =
     (if a \<in> files f then Some NotADirectoryError
      else if \<not> is_dir f a then Some FileNotFoundError
      else walk f as)"

text \<open>\<^verbatim>\<open>os.mkdir\<close>: one level only; every ancestor has to be a directory.\<close>

definition os_mkdir :: "string list \<Rightarrow> filesystem \<Rightarrow> error option \<times> filesystem" where
  "os_mkdir p f =
     (case walk f (ancestors p) of
        Some e \<Rightarrow> (Some e, f)
      | None \<Rightarrow>
          (if is_dir f p \<or> p \<in> files f then (Some FileExistsError, f)
           else (None, f\<lparr>dirs := insert p (dirs f)\<rparr>)))"

text \<open>\<^verbatim>\<open>Path.is_dir()\<close>: false when the path cannot be resolved.\<close>

definition path_is_dir :: "filesystem \<Rightarrow> string list \<Rightarrow> bool" where
  "path_is_dir f p = (walk f (ancestors p) = None \<and> is_dir f p)"

text \<open>
  \<^verbatim>\<open>Path(p).mkdir(exist_ok=exist_ok)\<close>, that is with \<^verbatim>\<open>parents=False\<close>, the default,
  which is how both call sites of the driver call it: a missing parent is re-raised as
  \<^verbatim>\<open>FileNotFoundError\<close>; any other failure is swallowed when \<^verbatim>\<open>exist_ok\<close> is set and
  the path is a directory.
\<close>

definition path_mkdir :: "bool \<Rightarrow> string \<Rightarrow> filesystem \<Rightarrow> error option \<times> filesystem" where
  "path_mkdir exist_ok p f =
     (case os_mkdir (path_parts p) f of
        (None, f') \<Rightarrow> (None, f')
      | (Some FileNotFoundError, f') \<Rightarrow> (Some FileNotFoundError, f')
      | (Some e, f') \<Rightarrow>
          (if \<not> exist_ok \<or> \<not> path_is_dir f' (path_parts p) then (Some e, f')
           else (None, f')))"

section \<open>The logging runtime and the manager\<close>

text \<open>
  The root logger of the runtime: \<^verbatim>\<open>logging.root.level\<close> and \<^verbatim>\<open>logging.root.handlers\<close>.
\<close>

record root_logger =
  level :: int
  handlers :: "handler list"

text \<open>\<^verbatim>\<open>Logger.removeHandler\<close>: removes the handler when it is attached.\<close>

definition removeHandler :: "handler \<Rightarrow> root_logger \<Rightarrow> root_logger" where
  "removeHandler h r = (if h \<in> set (handlers r) then r\<lparr>handlers := remove1 h (handlers r)\<rparr> else r)"

text \<open>
  The Python library is not part of the repository, so what the driver calls in it is a
  parameter of the model:
  \<^item> \<open>basicConfig\<close> stands for \<^verbatim>\<open>logging.basicConfig(**config)\<close>, which may raise and may
    change the root logger;
  \<^item> \<open>logging_attr\<close> for the attributes of the \<^verbatim>\<open>logging\<close> module that
    \<^verbatim>\<open>getattr(logging, name, default)\<close> finds;
  \<^item> \<open>str_upper\<close> for \<^verbatim>\<open>str.upper()\<close>;
  \<^item> \<open>level_names\<close> for the keys of \<^verbatim>\<open>logging._nameToLevel\<close>, the level names that
    \<^verbatim>\<open>setLevel\<close> accepts;
  \<^item> \<open>new_formatter fmt datefmt\<close> for the exception, if any, that
    \<^verbatim>\<open>logging.Formatter(fmt, datefmt=datefmt)\<close> raises;
  \<^item> \<open>new_rotating_file filename maxBytes backupCount encoding\<close> for the exception, if
    any, that \<^verbatim>\<open>RotatingFileHandler(filename, maxBytes=..., backupCount=...,
    encoding=...)\<close> raises, and for the file system it leaves: the constructor opens the
    file.
\<close>

record runtime =
  basicConfig :: "config \<Rightarrow> root_logger \<Rightarrow> error option \<times> root_logger"
  logging_attr :: "string \<rightharpoonup> pyval"
  str_upper :: "string \<Rightarrow> string"
  level_names :: "string set"
  new_formatter :: "pyval \<Rightarrow> pyval \<Rightarrow> error option"
  new_rotating_file ::
    "string \<Rightarrow> pyval \<Rightarrow> pyval \<Rightarrow> pyval \<Rightarrow> filesystem \<Rightarrow> error option \<times> filesystem"

text \<open>
  The singleton \<^verbatim>\<open>CentralizedLogging\<close> (\<open>configured\<close> is \<^verbatim>\<open>_configured\<close>) with what it
  acts on: the root logger, the file system, standard output, and the sequence of
  dictionaries that \<^verbatim>\<open>logging.basicConfig\<close> has been called with.
\<close>

record world =
  configured :: bool
  default_config :: config
  custom_handlers :: "handler list"
  root :: root_logger
  fs :: filesystem
  stdout :: "string list"
  basicConfig_calls :: "config list"

text \<open>\<^verbatim>\<open>CentralizedLogging.__init__\<close> in a process whose root logger is untouched.\<close>

definition init_default_config :: config where
  "init_default_config =
     [''level'' \<mapsto> PInt INFO,
      ''format'' \<mapsto> PStr ''%(asctime)s - %(name)s - %(levelname)s - %(message)s'',
      ''datefmt'' \<mapsto> PStr ''%Y-%m-%d %H:%M:%S'',
      ''filename'' \<mapsto> PNone,
      ''filemode'' \<mapsto> PStr ''a'',
      ''stream'' \<mapsto> PNone,
      ''handlers'' \<mapsto> PNone,
      ''force'' \<mapsto> PBool False,
      ''encoding'' \<mapsto> PStr ''utf-8'',
      ''errors'' \<mapsto> PNone]"

definition init :: "filesystem \<Rightarrow> world" where
  "init f =
     \<lparr>configured = False,
      default_config = init_default_config,
      custom_handlers = [],
      root = \<lparr>level = WARNING, handlers = []\<rparr>,
      fs = f,
      stdout = [],
      basicConfig_calls = []\<rparr>"

section \<open>Handler construction\<close>

text \<open>
  \<^verbatim>\<open>logging._checkLevel\<close>, which \<^verbatim>\<open>Handler.setLevel\<close> calls: an integer (a boolean
  is one) passes, a string has to be a level name (otherwise \<^verbatim>\<open>ValueError\<close>), anything
  else is a \<^verbatim>\<open>TypeError\<close>.
\<close>

definition checkLevel :: "runtime \<Rightarrow> pyval \<Rightarrow> error option" where
  "checkLevel rt l =
     (case l of
        PInt n \<Rightarrow> None
      | PBool b \<Rightarrow> None
      | PStr s \<Rightarrow> (if s \<in> level_names rt then None else Some ValueError)
      | _ \<Rightarrow> Some TypeError)"

text \<open>
  \<^verbatim>\<open>logging.Formatter(config.get('format', self.default_config['format']),
  datefmt=config.get('datefmt', self.default_config['datefmt']))\<close>, the expression that
  \<^verbatim>\<open>_create_handlers\<close> evaluates for the console and for the file handler. The default
  arguments are evaluated first and raise \<^verbatim>\<open>KeyError\<close> when the key is missing.
\<close>

definition make_formatter :: "runtime \<Rightarrow> config \<Rightarrow> world \<Rightarrow> error + formatter" where
  "make_formatter rt config w =
     (case default_config w ''format'' of
        None \<Rightarrow> Inl (KeyError ''format'')
      | Some dfmt \<Rightarrow>
          (case default_config w ''datefmt'' of
             None \<Rightarrow> Inl (KeyError ''datefmt'')
           | Some ddate \<Rightarrow>
               (case new_formatter rt (dict_get config ''format'' dfmt)
                                      (dict_get config ''datefmt'' ddate) of
                  Some e \<Rightarrow> Inl e
                | None \<Rightarrow>
                    Inr (Formatter (dict_get config ''format'' dfmt)
                                   (dict_get config ''datefmt'' ddate)))))"

text \<open>Lines 86-95 of \<^verbatim>\<open>_create_handlers\<close>: the console handler.\<close>

definition console_handlers :: "runtime \<Rightarrow> config \<Rightarrow> world \<Rightarrow> error + handler list" where
  "console_handlers rt config w =
     (if \<not> truthy (dict_get config ''disable_console'' (PBool False)) then
        (case make_formatter rt config w of
           Inl e \<Rightarrow> Inl e
         | Inr console_formatter \<Rightarrow>
             (case config ''level'' of
                None \<Rightarrow> Inl (KeyError ''level'')
              | Some l \<Rightarrow>
                  (case checkLevel rt l of
                     Some e \<Rightarrow> Inl e
                   | None \<Rightarrow> Inr [StreamHandler Stdout console_formatter l])))
      else Inr [])"

text \<open>
  Lines 97-116 of \<^verbatim>\<open>_create_handlers\<close>: the directory of the file is made, the
  rotating file handler is constructed, which opens the file, then the formatter is made
  and the level set. \<^verbatim>\<open>os.path.dirname\<close> raises \<^verbatim>\<open>TypeError\<close> on a value that is not a
  string.
\<close>

definition file_handlers ::
  "runtime \<Rightarrow> config \<Rightarrow> world \<Rightarrow> (error + handler list) \<times> world" where
  "file_handlers rt config w =
     (if truthy (dict_get config ''filename'' PNone) then
        (case config ''filename'' of
           Some (PStr filename) \<Rightarrow>
             (let log_dir = (if dirname filename \<noteq> [] then dirname filename else ''.'');
                  made = (if log_dir \<noteq> [] then path_mkdir True log_dir (fs w)
                          else (None, fs w))
              in case fst made of
                   Some e \<Rightarrow> (Inl e, w\<lparr>fs := snd made\<rparr>)
                 | None \<Rightarrow>
                     (let opened = new_rotating_file rt filename
                                     (dict_get config ''max_bytes'' (PInt (10 * 1024 * 1024)))
                                     (dict_get config ''backup_count'' (PInt 5))
                                     (dict_get config ''encoding'' (PStr ''utf-8''))
                                     (snd made);
                          w' = w\<lparr>fs := snd opened\<rparr>
                      in case fst opened of
                           Some e \<Rightarrow> (Inl e, w')
                         | None \<Rightarrow>
                             (case make_formatter rt config w of
                                Inl e \<Rightarrow> (Inl e, w')
                              | Inr file_formatter \<Rightarrow>
                                  (case config ''level'' of
                                     None \<Rightarrow> (Inl (KeyError ''level''), w')
                                   | Some l \<Rightarrow>
                                       (case checkLevel rt l of
                                          Some e \<Rightarrow> (Inl e, w')
                                        | None \<Rightarrow>
                                            (Inr [RotatingFileHandler filename
                                                    (dict_get config ''max_bytes''
                                                       (PInt (10 * 1024 * 1024)))
                                                    (dict_get config ''backup_count'' (PInt 5))
                                                    (dict_get config ''encoding'' (PStr ''utf-8''))
                                                    file_formatter l], w'))))))
         | _ \<Rightarrow> (Inl TypeError, w))
      else (Inr [], w))"

text \<open>
  \<^verbatim>\<open>CentralizedLogging._create_handlers\<close>: console handler, file handler, then
  \<^verbatim>\<open>handlers.extend(self.custom_handlers)\<close>.
\<close>

definition create_handlers ::
  "runtime \<Rightarrow> config \<Rightarrow> world \<Rightarrow> (error + handler list) \<times> world" where
  "create_handlers rt config w =
     (case console_handlers rt config w of
        Inl e \<Rightarrow> (Inl e, w)
      | Inr cs \<Rightarrow>
          (case file_handlers rt config w of
             (Inl e, w') \<Rightarrow> (Inl e, w')
           | (Inr fhs, w') \<Rightarrow> (Inr (cs @ fhs @ custom_handlers w'), w')))"

section \<open>The operations of the manager\<close>

definition already_configured_message :: string where
  "already_configured_message = ''Logging ya configurado. Usa force=True para reconfigurar.''"

text \<open>
  Lines 64-72 of \<^verbatim>\<open>CentralizedLogging.configure\<close>: the dictionary that is handed to
  \<^verbatim>\<open>logging.basicConfig\<close>, or the exception of \<^verbatim>\<open>_create_handlers\<close>.
\<close>

definition build_config ::
  "runtime \<Rightarrow> config \<Rightarrow> world \<Rightarrow> (error + config) \<times> world" where
  "build_config rt kwargs w =
     (let config = default_config w ++ kwargs
      in if ''handlers'' \<in> dom kwargs then
           (Inr (config(''handlers'' := kwargs ''handlers'')), w)
         else if truthy (dict_get config ''filename'' PNone) \<or> custom_handlers w \<noteq> [] then
           (case create_handlers rt config w of
              (Inl e, w') \<Rightarrow> (Inl e, w')
            | (Inr hs, w') \<Rightarrow> (Inr (config(''handlers'' \<mapsto> PHandlers hs)), w'))
         else (Inr config, w))"

text \<open>
  \<^verbatim>\<open>CentralizedLogging.configure(**kwargs)\<close>. The result is the exception raised, if any,
  and the world after the call. The closing \<^verbatim>\<open>root_logger.debug(...)\<close> hands a record to
  the sinks of the runtime and changes nothing that is modelled here.
\<close>

definition configure :: "runtime \<Rightarrow> config \<Rightarrow> world \<Rightarrow> error option \<times> world" where
  "configure rt kwargs w =
     (if configured w \<and> \<not> truthy (dict_get kwargs ''force'' (PBool False)) then
        (None, w\<lparr>stdout := stdout w @ [already_configured_message]\<rparr>)
      else
        (case build_config rt kwargs w of
           (Inl e, w') \<Rightarrow> (Some e, w')
         | (Inr config, w') \<Rightarrow>
             (let applied = basicConfig rt config (root w');
                  w'' = w'\<lparr>root := snd applied,
                           basicConfig_calls := basicConfig_calls w' @ [config]\<rparr>
              in case fst applied of
                   Some e \<Rightarrow> (Some e, w'')
                 | None \<Rightarrow> (None, w''\<lparr>configured := True\<rparr>))))"

text \<open>\<^verbatim>\<open>CentralizedLogging.add_custom_handler\<close>\<close>

definition add_custom_handler :: "handler \<Rightarrow> world \<Rightarrow> world" where
  "add_custom_handler h w = w\<lparr>custom_handlers := custom_handlers w @ [h]\<rparr>"

text \<open>
  \<^verbatim>\<open>CentralizedLogging.setup_default_config(level, log_to_file, log_to_console, log_dir)\<close>
\<close>

definition setup_default_config ::
  "runtime \<Rightarrow> string \<Rightarrow> bool \<Rightarrow> bool \<Rightarrow> string \<Rightarrow> world \<Rightarrow> error option \<times> world" where
  "setup_default_config rt lvl log_to_file log_to_console log_dir w =
     (let level_value = (case logging_attr rt (str_upper rt lvl) of
                           Some v \<Rightarrow> v
                         | None \<Rightarrow> PInt INFO);
          config = [''level'' \<mapsto> level_value,
                    ''format'' \<mapsto> PStr ''%(asctime)s - %(name)s - %(levelname)s - %(message)s'',
                    ''datefmt'' \<mapsto> PStr ''%Y-%m-%d %H:%M:%S'',
                    ''force'' \<mapsto> PBool True];
          made = (if log_to_file then path_mkdir True log_dir (fs w) else (None, fs w));
          w' = w\<lparr>fs := snd made\<rparr>
      in case fst made of
           Some e \<Rightarrow> (Some e, w')
         | None \<Rightarrow>
             (let config = (if log_to_file then
                              config(''filename'' \<mapsto>
                                       PStr (path_str (path_parts log_dir @ [''application.log''])),
                                     ''max_bytes'' \<mapsto> PInt (10 * 1024 * 1024),
                                     ''backup_count'' \<mapsto> PInt 5)
                            else config);
                  config = (if \<not> log_to_console then config(''disable_console'' \<mapsto> PBool True)
                            else config)
              in configure rt config w'))"

text \<open>\<^verbatim>\<open>CentralizedLogging.get_config\<close>\<close>

definition get_config :: "world \<Rightarrow> config" where
  "get_config w =
     [''level'' \<mapsto> PInt (level (root w)),
      ''handlers_count'' \<mapsto> PInt (int (length (handlers (root w)))),
      ''configured'' \<mapsto> PBool (configured w)]"

text \<open>
  \<^verbatim>\<open>CentralizedLogging.reset\<close>: the loop runs over a copy of the handler list of the
  root logger.
\<close>

definition reset :: "world \<Rightarrow> world" where
  "reset w =
     w\<lparr>root := fold removeHandler (handlers (root w)) (root w),
       configured := False,
       custom_handlers := []\<rparr>"

section \<open>The sink list in the words of the specification\<close>

text \<open>
  Section 4.1.a of the specification, for an effective configuration \<open>e\<close>: a console
  sink on standard output unless \<^verbatim>\<open>disableConsole\<close> holds, then a rotating file sink
  when \<^verbatim>\<open>fileName\<close> is set (a string that is not empty), then the custom handlers in
  registration order. Both derived sinks carry the formatter made of \<^verbatim>\<open>format\<close> and
  \<^verbatim>\<open>dateFormat\<close> and the threshold \<^verbatim>\<open>level\<close>; the file sink has \<^verbatim>\<open>maxBytes\<close>
  (10 MiB unless given), \<^verbatim>\<open>backupCount\<close> (5 unless given) and \<^verbatim>\<open>encoding\<close> (UTF-8
  unless given).
\<close>

definition spec_formatter :: "config \<Rightarrow> formatter" where
  "spec_formatter e = Formatter (dict_get e ''format'' PNone) (dict_get e ''datefmt'' PNone)"

definition spec_console_sink :: "config \<Rightarrow> handler" where
  "spec_console_sink e = StreamHandler Stdout (spec_formatter e) (dict_get e ''level'' PNone)"

definition spec_file_sink :: "config \<Rightarrow> string \<Rightarrow> handler" where
  "spec_file_sink e f =
     RotatingFileHandler f
       (dict_get e ''max_bytes'' (PInt 10485760))
       (dict_get e ''backup_count'' (PInt 5))
       (dict_get e ''encoding'' (PStr ''utf-8''))
       (spec_formatter e)
       (dict_get e ''level'' PNone)"

definition spec_sinks :: "config \<Rightarrow> handler list \<Rightarrow> handler list" where
  "spec_sinks e custom =
     (if truthy (dict_get e ''disable_console'' (PBool False)) then [] else [spec_console_sink e])
     @ (case e ''filename'' of
          Some (PStr f) \<Rightarrow> (if f = [] then [] else [spec_file_sink e f])
        | _ \<Rightarrow> [])
     @ custom"

section \<open>Runtimes for running examples\<close>

text \<open>
  The parts of a runtime that the examples share. They behave as the library does on the
  arguments of the examples, which are ASCII level names, the format strings of the
  driver, integer levels and file names in directories that exist: \<open>ascii_upper\<close> is
  \<^verbatim>\<open>str.upper()\<close> on ASCII text, \<open>accept_formatter\<close> is a \<^verbatim>\<open>Formatter\<close> constructor
  that takes its arguments, \<open>open_append\<close> is a \<^verbatim>\<open>RotatingFileHandler\<close> constructor that
  opens the file for appending and looks at none of its other arguments.
\<close>

definition upper_char :: "char \<Rightarrow> char" where
  "upper_char c =
     (case map_of (zip ''abcdefghijklmnopqrstuvwxyz'' ''ABCDEFGHIJKLMNOPQRSTUVWXYZ'') c of
        Some u \<Rightarrow> u
      | None \<Rightarrow> c)"

definition ascii_upper :: "string \<Rightarrow> string" where
  "ascii_upper s = map upper_char s"

definition accept_formatter :: "pyval \<Rightarrow> pyval \<Rightarrow> error option" where
  "accept_formatter fmt datefmt = None"

definition open_append ::
  "string \<Rightarrow> pyval \<Rightarrow> pyval \<Rightarrow> pyval \<Rightarrow> filesystem \<Rightarrow> error option \<times> filesystem" where
  "open_append filename max_bytes backup_count encoding f =
     (case walk f (ancestors (path_parts filename)) of
        Some e \<Rightarrow> (Some e, f)
      | None \<Rightarrow>
          (if is_dir f (path_parts filename) then (Some IsADirectoryError, f)
           else (None, f\<lparr>files := insert (path_parts filename) (files f)\<rparr>)))"

text \<open>The keys of \<^verbatim>\<open>logging._nameToLevel\<close> in a process that has added no level.\<close>

definition py_level_names :: "string set" where
  "py_level_names =
     {''CRITICAL'', ''FATAL'', ''ERROR'', ''WARN'', ''WARNING'', ''INFO'', ''DEBUG'', ''NOTSET''}"

text \<open>
  Modelled from the spec: the logging runtime is not part of the repository. The spec has
  level names DEBUG, INFO, WARNING, ERROR and CRITICAL, and has \<^verbatim>\<open>configure\<close> apply the
  level and the sink list of the effective configuration to the root logging target; when
  no sink list is passed the target keeps what the runtime gives it.
\<close>

definition spec_logging_attr :: "string \<rightharpoonup> pyval" where
  "spec_logging_attr =
     [''DEBUG'' \<mapsto> PInt DEBUG,
      ''INFO'' \<mapsto> PInt INFO,
      ''WARNING'' \<mapsto> PInt WARNING,
      ''ERROR'' \<mapsto> PInt ERROR,
      ''CRITICAL'' \<mapsto> PInt CRITICAL]"

definition spec_basicConfig :: "config \<Rightarrow> root_logger \<Rightarrow> error option \<times> root_logger" where
  "spec_basicConfig c r =
     (None,
      \<lparr>level = (case c ''level'' of Some (PInt n) \<Rightarrow> n | _ \<Rightarrow> level r),
       handlers = (case c ''handlers'' of Some (PHandlers hs) \<Rightarrow> hs | _ \<Rightarrow> handlers r)\<rparr>)"

definition spec_runtime :: runtime where
  "spec_runtime =
     \<lparr>basicConfig = spec_basicConfig,
      logging_attr = spec_logging_attr,
      str_upper = ascii_upper,
      level_names = py_level_names,
      new_formatter = accept_formatter,
      new_rotating_file = open_append\<rparr>"

text \<open>
  The library as it is (CPython, \<^verbatim>\<open>logging/__init__.py\<close>). The attributes of the
  \<^verbatim>\<open>logging\<close> module whose names have no lower-case letter, which are the ones an
  upper-cased name can find:
\<close>

definition py_logging_attr :: "string \<rightharpoonup> pyval" where
  "py_logging_attr =
     [''CRITICAL'' \<mapsto> PInt 50,
      ''FATAL'' \<mapsto> PInt 50,
      ''ERROR'' \<mapsto> PInt 40,
      ''WARNING'' \<mapsto> PInt 30,
      ''WARN'' \<mapsto> PInt 30,
      ''INFO'' \<mapsto> PInt 20,
      ''DEBUG'' \<mapsto> PInt 10,
      ''NOTSET'' \<mapsto> PInt 0,
      ''BASIC_FORMAT'' \<mapsto> PStr ''%(levelname)s:%(name)s:%(message)s'',
      ''_STYLES'' \<mapsto> PObj ''_STYLES'']"

text \<open>
  \<^verbatim>\<open>logging.basicConfig(**kwargs)\<close> up to its two checks of the keys: \<^verbatim>\<open>force\<close> removes
  the handlers of the root logger; when the root logger has handlers left the call
  returns and does nothing; otherwise \<^verbatim>\<open>stream\<close> together with \<^verbatim>\<open>filename\<close>, or either
  of them together with a handler list, raises \<^verbatim>\<open>ValueError\<close>. The tests are on the
  presence of the keys (\<^verbatim>\<open>"stream" in kwargs\<close>), not on their values. What
  \<^verbatim>\<open>basicConfig\<close> does past these checks (it builds a handler and a formatter, adds the
  handlers, sets the level, rejects unknown keys) is the parameter \<open>rest\<close>.
\<close>

definition py_basicConfig ::
  "(config \<Rightarrow> root_logger \<Rightarrow> error option \<times> root_logger)
   \<Rightarrow> config \<Rightarrow> root_logger \<Rightarrow> error option \<times> root_logger" where
  "py_basicConfig rest kwargs r =
     (let force = dict_get kwargs ''force'' (PBool False);
          r' = (if truthy force then fold removeHandler (handlers r) r else r)
      in if length (handlers r') = 0 then
           (if dict_get kwargs ''handlers'' PNone = PNone then
              (if ''stream'' \<in> dom kwargs \<and> ''filename'' \<in> dom kwargs
               then (Some ValueError, r')
               else rest kwargs r')
            else
              (if ''stream'' \<in> dom kwargs \<or> ''filename'' \<in> dom kwargs
               then (Some ValueError, r')
               else rest kwargs r'))
         else (None, r'))"

text \<open>
  Every dictionary that the driver hands over has the keys of its defaults, \<^verbatim>\<open>stream\<close>
  and \<^verbatim>\<open>filename\<close> among them, so no call of the driver gets to \<open>rest\<close>; the examples
  put the runtime of the specification there.
\<close>

definition py_runtime :: runtime where
  "py_runtime =
     \<lparr>basicConfig = py_basicConfig spec_basicConfig,
      logging_attr = py_logging_attr,
      str_upper = ascii_upper,
      level_names = py_level_names,
      new_formatter = accept_formatter,
      new_rotating_file = open_append\<rparr>"

text \<open>A file system that holds nothing but the working directory.\<close>

definition empty_fs :: filesystem where
  "empty_fs = \<lparr>dirs = {}, files = {}\<rparr>"

section \<open>Facts about \<open>configure\<close>\<close>

text \<open>Building the dictionary touches nothing but the file system.\<close>

lemma file_handlers_world:
  "snd (file_handlers rt config w) = w\<lparr>fs := fs (snd (file_handlers rt config w))\<rparr>"
  by (simp add: file_handlers_def Let_def split: option.splits pyval.splits sum.splits)

lemma create_handlers_world:
  "snd (create_handlers rt config w) = w\<lparr>fs := fs (snd (create_handlers rt config w))\<rparr>"
proof (cases "console_handlers rt config w")
  case (Inl e)
  then show ?thesis by (simp add: create_handlers_def)
next
  case (Inr cs)
  obtain r w' where fh: "file_handlers rt config w = (r, w')"
    by (cases "file_handlers rt config w")
  with file_handlers_world [of rt config w] have "w' = w\<lparr>fs := fs w'\<rparr>" by simp
  with Inr fh show ?thesis by (cases r) (simp_all add: create_handlers_def)
qed

lemma create_handlers_custom:
  "custom_handlers (snd (create_handlers rt config w)) = custom_handlers w"
  by (subst create_handlers_world) simp

lemma build_config_world:
  "snd (build_config rt kwargs w) = w\<lparr>fs := fs (snd (build_config rt kwargs w))\<rparr>"
proof -
  obtain r w' where ch: "create_handlers rt (default_config w ++ kwargs) w = (r, w')"
    by (cases "create_handlers rt (default_config w ++ kwargs) w")
  with create_handlers_world [of rt "default_config w ++ kwargs" w] have "w' = w\<lparr>fs := fs w'\<rparr>"
    by simp
  with ch show ?thesis by (cases r) (simp_all add: build_config_def Let_def)
qed

lemma build_config_fields:
  assumes "build_config rt kwargs w = (r, w')"
  shows "configured w' = configured w" "default_config w' = default_config w"
    "custom_handlers w' = custom_handlers w" "root w' = root w" "stdout w' = stdout w"
    "basicConfig_calls w' = basicConfig_calls w"
proof -
  from build_config_world [of rt kwargs w] assms have eq: "w' = w\<lparr>fs := fs w'\<rparr>" by simp
  show "configured w' = configured w" by (subst eq) simp
  show "default_config w' = default_config w" by (subst eq) simp
  show "custom_handlers w' = custom_handlers w" by (subst eq) simp
  show "root w' = root w" by (subst eq) simp
  show "stdout w' = stdout w" by (subst eq) simp
  show "basicConfig_calls w' = basicConfig_calls w" by (subst eq) simp
qed

lemma build_config_given:
  "''handlers'' \<in> dom kwargs \<Longrightarrow> build_config rt kwargs w = (Inr (default_config w ++ kwargs), w)"
  by (auto simp: build_config_def Let_def map_add_def fun_eq_iff split: option.splits)

lemma build_config_plain:
  assumes "''handlers'' \<notin> dom kwargs"
    and "\<not> (truthy (dict_get (default_config w ++ kwargs) ''filename'' PNone)
            \<or> custom_handlers w \<noteq> [])"
  shows "build_config rt kwargs w = (Inr (default_config w ++ kwargs), w)"
  using assms by (simp add: build_config_def Let_def)

lemma build_config_derived:
  assumes "''handlers'' \<notin> dom kwargs"
    and "truthy (dict_get (default_config w ++ kwargs) ''filename'' PNone)
         \<or> custom_handlers w \<noteq> []"
  shows "build_config rt kwargs w =
           (case create_handlers rt (default_config w ++ kwargs) w of
              (Inl e, w') \<Rightarrow> (Inl e, w')
            | (Inr hs, w') \<Rightarrow> (Inr ((default_config w ++ kwargs)(''handlers'' \<mapsto> PHandlers hs)), w'))"
  using assms by (simp add: build_config_def Let_def)

lemma build_config_keys:
  assumes "build_config rt kwargs w = (Inr c, w')" "k \<noteq> ''handlers''"
  shows "c k = (default_config w ++ kwargs) k"
  using assms
  by (auto simp: build_config_def Let_def split: if_splits prod.splits sum.splits)

lemma build_config_handlers:
  assumes "build_config rt kwargs w = (Inr c, w')" "''handlers'' \<notin> dom kwargs"
  shows "if truthy (dict_get (default_config w ++ kwargs) ''filename'' PNone) \<or> custom_handlers w \<noteq> []
         then \<exists>hs. create_handlers rt (default_config w ++ kwargs) w = (Inr hs, w')
                \<and> c ''handlers'' = Some (PHandlers hs)
         else c ''handlers'' = default_config w ''handlers'' \<and> w' = w"
  using assms
  by (auto simp: build_config_def Let_def map_add_def split: if_splits prod.splits sum.splits option.splits)

text \<open>
  Lines 64-72 return a dictionary unless \<^verbatim>\<open>_create_handlers\<close> is called and raises.
\<close>

lemma build_config_returns:
  assumes "''handlers'' \<in> dom kwargs
           \<or> \<not> (truthy (dict_get (default_config w ++ kwargs) ''filename'' PNone)
                  \<or> custom_handlers w \<noteq> [])
           \<or> (\<exists>hs. fst (create_handlers rt (default_config w ++ kwargs) w) = Inr hs)"
  shows "\<exists>c. fst (build_config rt kwargs w) = Inr c"
proof (cases "''handlers'' \<in> dom kwargs")
  case True
  then show ?thesis by (simp add: build_config_given)
next
  case False
  show ?thesis
  proof (cases "truthy (dict_get (default_config w ++ kwargs) ''filename'' PNone)
                \<or> custom_handlers w \<noteq> []")
    case nd: False
    with False show ?thesis by (simp add: build_config_plain)
  next
    case True
    with False assms obtain hs where "fst (create_handlers rt (default_config w ++ kwargs) w) = Inr hs"
      by blast
    with False True show ?thesis
      by (cases "create_handlers rt (default_config w ++ kwargs) w")
         (simp add: build_config_derived)
  qed
qed

lemma build_config_raises:
  assumes "''handlers'' \<notin> dom kwargs"
    and "truthy (dict_get (default_config w ++ kwargs) ''filename'' PNone)
         \<or> custom_handlers w \<noteq> []"
    and "fst (create_handlers rt (default_config w ++ kwargs) w) = Inl e"
  shows "build_config rt kwargs w = (Inl e, snd (create_handlers rt (default_config w ++ kwargs) w))"
  using assms
  by (cases "create_handlers rt (default_config w ++ kwargs) w") (simp add: build_config_derived)

lemma configure_blocked:
  assumes "configured w" "\<not> truthy (dict_get kwargs ''force'' (PBool False))"
  shows "configure rt kwargs w = (None, w\<lparr>stdout := stdout w @ [already_configured_message]\<rparr>)"
  using assms by (simp add: configure_def)

lemma configure_returns_configured:
  "fst (configure rt kwargs w) = None \<Longrightarrow> configured (snd (configure rt kwargs w))"
  by (auto simp: configure_def Let_def split: prod.splits sum.splits option.splits if_splits)

lemma configure_applied:
  assumes "\<not> (configured w \<and> \<not> truthy (dict_get kwargs ''force'' (PBool False)))"
    and "configure rt kwargs w = (None, w2)"
  obtains c w1 where "build_config rt kwargs w = (Inr c, w1)"
    and "fst (basicConfig rt c (root w)) = None"
    and "w2 = w1\<lparr>root := snd (basicConfig rt c (root w)),
                 basicConfig_calls := basicConfig_calls w @ [c],
                 configured := True\<rparr>"
proof -
  obtain r w1 where bc: "build_config rt kwargs w = (r, w1)"
    by (cases "build_config rt kwargs w")
  from assms bc obtain c where r: "r = Inr c"
    by (cases r) (auto simp: configure_def)
  note f = build_config_fields [OF bc]
  from assms bc r have "fst (basicConfig rt c (root w)) = None"
    by (auto simp: configure_def Let_def f split: option.splits)
  moreover from assms bc r have "w2 = w1\<lparr>root := snd (basicConfig rt c (root w)),
                 basicConfig_calls := basicConfig_calls w @ [c],
                 configured := True\<rparr>"
    by (auto simp: configure_def Let_def f split: option.splits)
  ultimately show thesis using that bc r by blast
qed

text \<open>
  Whatever the runtime answers: once lines 64-72 have built the dictionary, it is handed
  to \<^verbatim>\<open>logging.basicConfig\<close>, and the outcome of \<^verbatim>\<open>configure\<close> is the outcome of that call.
\<close>

lemma configure_handed_over:
  assumes "\<not> (configured w \<and> \<not> truthy (dict_get kwargs ''force'' (PBool False)))"
    and "fst (build_config rt kwargs w) = Inr c"
  shows "basicConfig_calls (snd (configure rt kwargs w)) = basicConfig_calls w @ [c]"
    and "root (snd (configure rt kwargs w)) = snd (basicConfig rt c (root w))"
    and "fst (configure rt kwargs w) = fst (basicConfig rt c (root w))"
    and "fs (snd (configure rt kwargs w)) = fs (snd (build_config rt kwargs w))"
proof -
  obtain w1 where bc: "build_config rt kwargs w = (Inr c, w1)"
    using assms(2) by (cases "build_config rt kwargs w") simp
  note f = build_config_fields [OF bc]
  from assms(1) have nb: "(configured w \<and> \<not> truthy (dict_get kwargs ''force'' (PBool False))) = False"
    by blast
  have eq: "configure rt kwargs w =
              (case fst (basicConfig rt c (root w)) of
                 Some e \<Rightarrow> (Some e, w1\<lparr>root := snd (basicConfig rt c (root w)),
                                       basicConfig_calls := basicConfig_calls w @ [c]\<rparr>)
               | None \<Rightarrow> (None, w1\<lparr>root := snd (basicConfig rt c (root w)),
                                   basicConfig_calls := basicConfig_calls w @ [c],
                                   configured := True\<rparr>))"
    by (simp only: configure_def nb if_False bc prod.case sum.case Let_def f)
  show "basicConfig_calls (snd (configure rt kwargs w)) = basicConfig_calls w @ [c]"
    by (simp add: eq split: option.splits)
  show "root (snd (configure rt kwargs w)) = snd (basicConfig rt c (root w))"
    by (simp add: eq split: option.splits)
  show "fst (configure rt kwargs w) = fst (basicConfig rt c (root w))"
    by (simp add: eq split: option.splits)
  show "fs (snd (configure rt kwargs w)) = fs (snd (build_config rt kwargs w))"
    by (simp add: eq bc split: option.splits)
qed

lemma configure_derivation_raises:
  assumes "\<not> (configured w \<and> \<not> truthy (dict_get kwargs ''force'' (PBool False)))"
    and "build_config rt kwargs w = (Inl e, w1)"
  shows "configure rt kwargs w = (Some e, w1)"
proof -
  from assms(1) have nb: "(configured w \<and> \<not> truthy (dict_get kwargs ''force'' (PBool False))) = False"
    by blast
  show ?thesis by (simp only: configure_def nb if_False assms(2) prod.case sum.case)
qed

text \<open>The keys of the dictionary that lines 64-72 build.\<close>

lemma build_config_merge:
  assumes "fst (build_config rt kwargs w) = Inr c"
  shows "\<forall>k. k \<in> dom kwargs \<longrightarrow> c k = kwargs k"
    and "\<forall>k. k \<notin> dom kwargs \<and> k \<noteq> ''handlers'' \<longrightarrow> c k = default_config w k"
    and "''handlers'' \<notin> dom kwargs \<longrightarrow>
           c ''handlers'' = default_config w ''handlers''
           \<or> (\<exists>hs. c ''handlers'' = Some (PHandlers hs)
                 \<and> fst (create_handlers rt (default_config w ++ kwargs) w) = Inr hs)"
proof -
  obtain w1 where bc: "build_config rt kwargs w = (Inr c, w1)"
    using assms by (cases "build_config rt kwargs w") simp
  have given: "c k = kwargs k" if "k \<in> dom kwargs" for k
  proof (cases "k = ''handlers''")
    case True
    with that bc have "c = default_config w ++ kwargs" by (auto simp: build_config_given)
    with that show ?thesis by (auto simp: map_add_def)
  next
    case False
    with bc have "c k = (default_config w ++ kwargs) k" by (rule build_config_keys)
    with that show ?thesis by (auto simp: map_add_def)
  qed
  then show "\<forall>k. k \<in> dom kwargs \<longrightarrow> c k = kwargs k" by blast
  have dflt: "c k = default_config w k" if "k \<notin> dom kwargs" "k \<noteq> ''handlers''" for k
  proof -
    from bc that(2) have "c k = (default_config w ++ kwargs) k" by (rule build_config_keys)
    with that(1) show ?thesis by (simp add: map_add_def domIff)
  qed
  then show "\<forall>k. k \<notin> dom kwargs \<and> k \<noteq> ''handlers'' \<longrightarrow> c k = default_config w k" by blast
  show "''handlers'' \<notin> dom kwargs \<longrightarrow>
           c ''handlers'' = default_config w ''handlers''
           \<or> (\<exists>hs. c ''handlers'' = Some (PHandlers hs)
                 \<and> fst (create_handlers rt (default_config w ++ kwargs) w) = Inr hs)"
  proof
    assume "''handlers'' \<notin> dom kwargs"
    from build_config_handlers [OF bc this]
    show "c ''handlers'' = default_config w ''handlers''
           \<or> (\<exists>hs. c ''handlers'' = Some (PHandlers hs)
                 \<and> fst (create_handlers rt (default_config w ++ kwargs) w) = Inr hs)"
      by (auto split: if_splits)
  qed
qed

section \<open>Facts about \<open>reset\<close>, registration and forced calls\<close>

lemma removeHandler_eq: "removeHandler h r = r\<lparr>handlers := remove1 h (handlers r)\<rparr>"
  by (simp add: removeHandler_def remove1_idem)

lemma fold_removeHandler:
  "fold removeHandler xs r = r\<lparr>handlers := fold remove1 xs (handlers r)\<rparr>"
  by (induction xs arbitrary: r) (simp_all add: removeHandler_eq)

lemma mset_fold_remove1: "mset (fold remove1 xs ys) = mset ys - mset xs"
  by (induction xs arbitrary: ys) simp_all

lemma fold_remove1_self: "fold remove1 xs xs = []"
proof -
  have "mset (fold remove1 xs xs) = {#}" by (simp add: mset_fold_remove1)
  then show ?thesis by simp
qed

lemma remove_all_handlers: "fold removeHandler (handlers r) r = r\<lparr>handlers := []\<rparr>"
  by (simp add: fold_removeHandler fold_remove1_self)

lemma reset_eq:
  "reset w = w\<lparr>root := (root w)\<lparr>handlers := []\<rparr>, configured := False, custom_handlers := []\<rparr>"
  by (simp add: reset_def fold_removeHandler fold_remove1_self)

lemma custom_handlers_fold_add:
  "custom_handlers (fold add_custom_handler hs w) = custom_handlers w @ hs"
  by (induction hs arbitrary: w) (simp_all add: add_custom_handler_def)

lemma configure_keeps_manager:
  "default_config (snd (configure rt kwargs w)) = default_config w"
  "custom_handlers (snd (configure rt kwargs w)) = custom_handlers w"
proof -
  obtain r w1 where bc: "build_config rt kwargs w = (r, w1)"
    by (cases "build_config rt kwargs w")
  note f = build_config_fields [OF bc]
  show "default_config (snd (configure rt kwargs w)) = default_config w"
    using bc f by (cases r) (simp_all add: configure_def Let_def split: option.splits)
  show "custom_handlers (snd (configure rt kwargs w)) = custom_handlers w"
    using bc f by (cases r) (simp_all add: configure_def Let_def split: option.splits)
qed

lemma configure_given:
  assumes "''handlers'' \<in> dom kwargs"
    and "\<not> (configured w \<and> \<not> truthy (dict_get kwargs ''force'' (PBool False)))"
  shows "configure rt kwargs w =
           (let c = default_config w ++ kwargs;
                w' = w\<lparr>root := snd (basicConfig rt c (root w)),
                        basicConfig_calls := basicConfig_calls w @ [c]\<rparr>
            in case fst (basicConfig rt c (root w)) of
                 Some e \<Rightarrow> (Some e, w')
               | None \<Rightarrow> (None, w'\<lparr>configured := True\<rparr>))"
proof -
  from assms(2) have "(configured w \<and> \<not> truthy (dict_get kwargs ''force'' (PBool False))) = False"
    by blast
  then show ?thesis
    by (simp only: configure_def build_config_given [OF assms(1)] if_False Let_def prod.case
          sum.case)
qed

text \<open>
  The runtime as the library has it: a dictionary with the keys \<^verbatim>\<open>stream\<close> and
  \<^verbatim>\<open>filename\<close> never gets past the checks of \<^verbatim>\<open>basicConfig\<close>.
\<close>

lemma py_basicConfig_both_keys:
  assumes "''stream'' \<in> dom kwargs" "''filename'' \<in> dom kwargs"
  shows "py_basicConfig rest kwargs r =
           (if truthy (dict_get kwargs ''force'' (PBool False)) \<or> handlers r = []
            then (Some ValueError, r\<lparr>handlers := []\<rparr>)
            else (None, r))"
  using assms by (auto simp: py_basicConfig_def Let_def remove_all_handlers)

section \<open>The derived sinks against the specification\<close>

lemma make_formatter_merged:
  "make_formatter rt (default_config w ++ kwargs) w = Inr fm
   \<Longrightarrow> fm = spec_formatter (default_config w ++ kwargs)"
  by (auto simp: make_formatter_def spec_formatter_def dict_get_def map_add_def
           split: option.splits)

lemma console_handlers_merged:
  assumes "console_handlers rt e w = Inr cs" "e = default_config w ++ kwargs"
  shows "cs = (if truthy (dict_get e ''disable_console'' (PBool False)) then []
               else [spec_console_sink e])"
proof (cases "truthy (dict_get e ''disable_console'' (PBool False))")
  case True
  with assms show ?thesis by (simp add: console_handlers_def)
next
  case False
  with assms obtain fm l where fm: "make_formatter rt e w = Inr fm" and l: "e ''level'' = Some l"
    and cs: "cs = [StreamHandler Stdout fm l]"
    by (auto simp: console_handlers_def split: sum.splits option.splits)
  from fm assms(2) have "fm = spec_formatter e" by (simp add: make_formatter_merged)
  with l cs False show ?thesis by (simp add: spec_console_sink_def dict_get_def)
qed

lemma file_handlers_merged:
  assumes "file_handlers rt e w = (Inr fhs, w')" "e = default_config w ++ kwargs"
  shows "fhs = (case e ''filename'' of
                  Some (PStr f) \<Rightarrow> (if f = [] then [] else [spec_file_sink e f])
                | _ \<Rightarrow> [])"
proof (cases "truthy (dict_get e ''filename'' PNone)")
  case False
  with assms(1) have "fhs = []" by (simp add: file_handlers_def)
  with False show ?thesis
    by (auto simp: dict_get_def split: option.splits pyval.splits)
next
  case True
  with assms(1) obtain f where f: "e ''filename'' = Some (PStr f)"
    by (auto simp: file_handlers_def split: option.splits pyval.splits)
  with True have ne: "f \<noteq> []" by (simp add: dict_get_def)
  from assms(1) True f obtain fm l where fm: "make_formatter rt e w = Inr fm"
    and l: "e ''level'' = Some l"
    and fhs: "fhs = [RotatingFileHandler f
                       (dict_get e ''max_bytes'' (PInt (10 * 1024 * 1024)))
                       (dict_get e ''backup_count'' (PInt 5))
                       (dict_get e ''encoding'' (PStr ''utf-8'')) fm l]"
    by (auto simp: file_handlers_def Let_def split: option.splits sum.splits)
  from fm assms(2) have "fm = spec_formatter e" by (simp add: make_formatter_merged)
  with f ne l fhs show ?thesis by (simp add: spec_file_sink_def dict_get_def)
qed

lemma create_handlers_merged:
  assumes "create_handlers rt e w = (Inr hs, w')" "e = default_config w ++ kwargs"
  shows "hs = spec_sinks e (custom_handlers w)"
proof -
  from assms(1) obtain cs fhs where cs: "console_handlers rt e w = Inr cs"
    and fh: "file_handlers rt e w = (Inr fhs, w')" and hs: "hs = cs @ fhs @ custom_handlers w'"
    by (auto simp: create_handlers_def split: sum.splits prod.splits)
  from create_handlers_custom [of rt e w] assms(1)
  have "custom_handlers w' = custom_handlers w" by simp
  with hs console_handlers_merged [OF cs assms(2)] file_handlers_merged [OF fh assms(2)]
  show ?thesis by (simp add: spec_sinks_def)
qed

lemma count_spec_sinks:
  "count_list (spec_sinks e custom) (Handler i) = count_list custom (Handler i)"
  by (simp add: spec_sinks_def spec_console_sink_def spec_file_sink_def
        split: option.splits pyval.splits)

section \<open>Facts about \<open>setup_default_config\<close>\<close>

lemma setup_default_config_mkdir:
  "fst (setup_default_config rt lvl log_to_file log_to_console log_dir w) = None
   \<Longrightarrow> log_to_file \<longrightarrow> fst (path_mkdir True log_dir (fs w)) = None"
  by (auto simp: setup_default_config_def Let_def split: option.splits)

lemma setup_default_config_delegates:
  assumes "log_to_file \<longrightarrow> fst (path_mkdir True log_dir (fs w)) = None"
  shows "\<exists>kwargs.
           setup_default_config rt lvl log_to_file log_to_console log_dir w
             = configure rt kwargs
                 (w\<lparr>fs := (if log_to_file then snd (path_mkdir True log_dir (fs w)) else fs w)\<rparr>)
           \<and> kwargs ''level'' = Some (case logging_attr rt (str_upper rt lvl) of
                                        Some v \<Rightarrow> v
                                      | None \<Rightarrow> PInt INFO)
           \<and> kwargs ''force'' = Some (PBool True)
           \<and> ''handlers'' \<notin> dom kwargs
           \<and> (if log_to_file
               then kwargs ''filename''
                      = Some (PStr (path_str (path_parts log_dir @ [''application.log''])))
                    \<and> kwargs ''max_bytes'' = Some (PInt 10485760)
                    \<and> kwargs ''backup_count'' = Some (PInt 5)
               else ''filename'' \<notin> dom kwargs)
           \<and> (if log_to_console then ''disable_console'' \<notin> dom kwargs
               else kwargs ''disable_console'' = Some (PBool True))"
proof (cases log_to_file)
  case True
  with assms have m: "fst (path_mkdir True log_dir (fs w)) = None" by simp
  show ?thesis
  proof (cases log_to_console)
    case c: True
    show ?thesis
      by (rule exI [where x = "[''level'' \<mapsto> (case logging_attr rt (str_upper rt lvl) of
                                        Some v \<Rightarrow> v | None \<Rightarrow> PInt INFO),
                    ''format'' \<mapsto> PStr ''%(asctime)s - %(name)s - %(levelname)s - %(message)s'',
                    ''datefmt'' \<mapsto> PStr ''%Y-%m-%d %H:%M:%S'',
                    ''force'' \<mapsto> PBool True,
                    ''filename'' \<mapsto> PStr (path_str (path_parts log_dir @ [''application.log''])),
                    ''max_bytes'' \<mapsto> PInt (10 * 1024 * 1024),
                    ''backup_count'' \<mapsto> PInt 5]"])
         (simp add: setup_default_config_def Let_def True c m)
  next
    case c: False
    show ?thesis
      by (rule exI [where x = "[''level'' \<mapsto> (case logging_attr rt (str_upper rt lvl) of
                                        Some v \<Rightarrow> v | None \<Rightarrow> PInt INFO),
                    ''format'' \<mapsto> PStr ''%(asctime)s - %(name)s - %(levelname)s - %(message)s'',
                    ''datefmt'' \<mapsto> PStr ''%Y-%m-%d %H:%M:%S'',
                    ''force'' \<mapsto> PBool True,
                    ''filename'' \<mapsto> PStr (path_str (path_parts log_dir @ [''application.log''])),
                    ''max_bytes'' \<mapsto> PInt (10 * 1024 * 1024),
                    ''backup_count'' \<mapsto> PInt 5,
                    ''disable_console'' \<mapsto> PBool True]"])
         (simp add: setup_default_config_def Let_def True c m)
  qed
next
  case False
  show ?thesis
  proof (cases log_to_console)
    case c: True
    show ?thesis
      by (rule exI [where x = "[''level'' \<mapsto> (case logging_attr rt (str_upper rt lvl) of
                                        Some v \<Rightarrow> v | None \<Rightarrow> PInt INFO),
                    ''format'' \<mapsto> PStr ''%(asctime)s - %(name)s - %(levelname)s - %(message)s'',
                    ''datefmt'' \<mapsto> PStr ''%Y-%m-%d %H:%M:%S'',
                    ''force'' \<mapsto> PBool True]"])
         (simp add: setup_default_config_def Let_def False c)
  next
    case c: False
    show ?thesis
      by (rule exI [where x = "[''level'' \<mapsto> (case logging_attr rt (str_upper rt lvl) of
                                        Some v \<Rightarrow> v | None \<Rightarrow> PInt INFO),
                    ''format'' \<mapsto> PStr ''%(asctime)s - %(name)s - %(levelname)s - %(message)s'',
                    ''datefmt'' \<mapsto> PStr ''%Y-%m-%d %H:%M:%S'',
                    ''force'' \<mapsto> PBool True,
                    ''disable_console'' \<mapsto> PBool True]"])
         (simp add: setup_default_config_def Let_def False c)
  qed
qed

lemma configure_forced_call:
  assumes "truthy (dict_get kwargs ''force'' (PBool False))"
    and "configure rt kwargs w = (None, w')"
  shows "\<exists>c. basicConfig_calls w' = basicConfig_calls w @ [c]
           \<and> root w' = snd (basicConfig rt c (root w))
           \<and> configured w'
           \<and> (\<forall>k. k \<in> dom kwargs \<longrightarrow> c k = kwargs k)"
proof -
  from assms(1) have nb: "\<not> (configured w \<and> \<not> truthy (dict_get kwargs ''force'' (PBool False)))"
    by simp
  from nb assms(2) obtain c w1 where bc: "build_config rt kwargs w = (Inr c, w1)"
    and w': "w' = w1\<lparr>root := snd (basicConfig rt c (root w)),
                     basicConfig_calls := basicConfig_calls w @ [c],
                     configured := True\<rparr>"
    by (rule configure_applied)
  have given: "c k = kwargs k" if "k \<in> dom kwargs" for k
  proof (cases "k = ''handlers''")
    case True
    with that bc have "c = default_config w ++ kwargs" by (auto simp: build_config_given)
    with that show ?thesis by (auto simp: map_add_def)
  next
    case False
    with bc have "c k = (default_config w ++ kwargs) k" by (rule build_config_keys)
    with that show ?thesis by (auto simp: map_add_def)
  qed
  from w' given show ?thesis by simp
qed

text \<open>
  On the library as it is, a call of \<^verbatim>\<open>configure\<close> that gets to \<^verbatim>\<open>logging.basicConfig\<close>
  with \<^verbatim>\<open>force\<close>, or while the root logger has no handler, raises \<^verbatim>\<open>ValueError\<close>: the
  dictionary has the keys of the defaults, \<^verbatim>\<open>stream\<close> and \<^verbatim>\<open>filename\<close> among them.
\<close>

lemma build_config_default_keys:
  assumes "fst (build_config rt kwargs w) = Inr c" "k \<in> dom (default_config w)"
  shows "k \<in> dom c"
proof (cases "k \<in> dom kwargs")
  case True
  with build_config_merge(1) [OF assms(1)] show ?thesis by (auto simp: domIff)
next
  case False
  show ?thesis
  proof (cases "k = ''handlers''")
    case h: True
    with False build_config_merge(3) [OF assms(1)] assms(2) show ?thesis by (auto simp: domIff)
  next
    case h: False
    with False build_config_merge(2) [OF assms(1)] assms(2) show ?thesis by (auto simp: domIff)
  qed
qed

lemma configure_raises_on_library:
  assumes "\<not> (configured w \<and> \<not> truthy (dict_get kwargs ''force'' (PBool False)))"
    and "basicConfig rt = py_basicConfig rest"
    and "''stream'' \<in> dom (default_config w)" "''filename'' \<in> dom (default_config w)"
    and "fst (build_config rt kwargs w) = Inr c"
    and "truthy (dict_get c ''force'' (PBool False)) \<or> handlers (root w) = []"
  shows "fst (configure rt kwargs w) = Some ValueError"
proof -
  from build_config_default_keys [OF assms(5)] assms(3,4)
  have "''stream'' \<in> dom c" "''filename'' \<in> dom c" by blast+
  from py_basicConfig_both_keys [OF this, of rest "root w"] assms(6)
  have "fst (py_basicConfig rest c (root w)) = Some ValueError" by auto
  with configure_handed_over(3) [OF assms(1,5)] assms(2) show ?thesis by simp
qed

text \<open>The definitions that running an example unfolds.\<close>

lemmas run_simps = configure_def build_config_def create_handlers_def console_handlers_def
  file_handlers_def make_formatter_def checkLevel_def dict_get_def init_def
  init_default_config_def spec_runtime_def spec_basicConfig_def spec_logging_attr_def
  py_runtime_def py_basicConfig_def py_logging_attr_def py_level_names_def
  accept_formatter_def open_append_def ascii_upper_def upper_char_def empty_fs_def
  path_mkdir_def os_mkdir_def path_is_dir_def ancestors_def is_dir_def path_parts_def
  dirname_def path_str_def removeHandler_def
  DEBUG_def INFO_def WARNING_def ERROR_def CRITICAL_def Let_def

section \<open>The claims\<close>

text \<open>
  C1. When the manager is configured and the \<^verbatim>\<open>force\<close> option is absent or false (not
  truthy), \<^verbatim>\<open>configure\<close> returns normally and changes nothing but standard output, to
  which it adds the line that asks for \<^verbatim>\<open>force\<close>: the flag, the custom handlers, the
  defaults, the root logger, the file system and the calls made to the runtime stay as
  they were. So when a call of \<^verbatim>\<open>configure\<close> has returned normally, a following call
  without \<^verbatim>\<open>force\<close> is such a no-op and none of its options reaches the runtime.
\<close>

theorem configure_without_force_is_noop:
  assumes "\<not> truthy (dict_get kwargs ''force'' (PBool False))"
  shows "(configured w \<longrightarrow>
            configure rt kwargs w =
              (None, w\<lparr>stdout := stdout w @ [already_configured_message]\<rparr>))
       \<and> (fst (configure rt first w) = None \<longrightarrow>
            configure rt kwargs (snd (configure rt first w)) =
              (None, (snd (configure rt first w))
                       \<lparr>stdout := stdout (snd (configure rt first w)) @ [already_configured_message]\<rparr>))"
  using assms configure_blocked configure_returns_configured by blast

theorem configure_without_force_is_noop_witness:
  "\<not> truthy (dict_get [''level'' \<mapsto> PInt ERROR] ''force'' (PBool False))
   \<and> fst (configure spec_runtime [''level'' \<mapsto> PInt DEBUG] (init empty_fs)) = None
   \<and> level (root (snd (configure spec_runtime [''level'' \<mapsto> PInt ERROR]
        (snd (configure spec_runtime [''level'' \<mapsto> PInt DEBUG] (init empty_fs)))))) = DEBUG"
  using configure_without_force_is_noop
    [of "[''level'' \<mapsto> PInt ERROR]" "init empty_fs" spec_runtime "[''level'' \<mapsto> PInt DEBUG]"]
  by (simp add: run_simps)

text \<open>
  C2, as the code has it. Let a call of \<^verbatim>\<open>configure\<close> with \<^verbatim>\<open>force\<close> follow another call,
  whatever the outcome of either. Unless \<^verbatim>\<open>_create_handlers\<close> is called and raises, the
  second call hands a dictionary to \<^verbatim>\<open>logging.basicConfig\<close> in which every key of the
  second call's options has the second call's value and every other key, \<^verbatim>\<open>handlers\<close>
  apart, has the value of the stored defaults, whatever the first call gave.
\<close>

theorem forced_reconfigure_merges_against_defaults:
  assumes "truthy (dict_get second ''force'' (PBool False))"
    and "w1 = snd (configure rt first w)"
    and "''handlers'' \<in> dom second
         \<or> \<not> (truthy (dict_get (default_config w1 ++ second) ''filename'' PNone)
                \<or> custom_handlers w1 \<noteq> [])
         \<or> (\<exists>hs. fst (create_handlers rt (default_config w1 ++ second) w1) = Inr hs)"
  shows "\<exists>c. basicConfig_calls (snd (configure rt second w1)) = basicConfig_calls w1 @ [c]
           \<and> fst (configure rt second w1) = fst (basicConfig rt c (root w1))
           \<and> (\<forall>k. k \<in> dom second \<longrightarrow> c k = second k)
           \<and> (\<forall>k. k \<notin> dom second \<and> k \<noteq> ''handlers'' \<longrightarrow> c k = default_config w k)"
proof -
  from assms(1) have nb: "\<not> (configured w1 \<and> \<not> truthy (dict_get second ''force'' (PBool False)))"
    by simp
  from configure_keeps_manager(1) [of rt first w] assms(2)
  have d: "default_config w1 = default_config w" by simp
  from build_config_returns [OF assms(3)]
  obtain c where c: "fst (build_config rt second w1) = Inr c" ..
  from configure_handed_over(1,3) [OF nb c] build_config_merge(1,2) [OF c] d
  show ?thesis by auto
qed

text \<open>
  An instance on the library as it is: the second forced call has the default level INFO
  in its dictionary.
\<close>

theorem forced_reconfigure_merges_against_defaults_witness:
  "truthy (dict_get [''force'' \<mapsto> PBool True] ''force'' (PBool False))
   \<and> \<not> truthy (dict_get
         (default_config (snd (configure py_runtime
              [''level'' \<mapsto> PInt DEBUG, ''force'' \<mapsto> PBool True] (init empty_fs)))
            ++ [''force'' \<mapsto> PBool True]) ''filename'' PNone)
   \<and> custom_handlers (snd (configure py_runtime
         [''level'' \<mapsto> PInt DEBUG, ''force'' \<mapsto> PBool True] (init empty_fs))) = []
   \<and> (\<exists>c. basicConfig_calls (snd (configure py_runtime [''force'' \<mapsto> PBool True]
               (snd (configure py_runtime [''level'' \<mapsto> PInt DEBUG, ''force'' \<mapsto> PBool True]
                      (init empty_fs)))))
             = basicConfig_calls (snd (configure py_runtime
                   [''level'' \<mapsto> PInt DEBUG, ''force'' \<mapsto> PBool True] (init empty_fs))) @ [c]
          \<and> c ''force'' = Some (PBool True)
          \<and> c ''level'' = Some (PInt INFO))"
proof -
  let ?k1 = "[''level'' \<mapsto> PInt DEBUG, ''force'' \<mapsto> PBool True]"
  let ?k2 = "[''force'' \<mapsto> PBool True]"
  let ?w1 = "snd (configure py_runtime ?k1 (init empty_fs))"
  let ?w2 = "snd (configure py_runtime ?k2 ?w1)"
  have f: "truthy (dict_get ?k2 ''force'' (PBool False))" by (simp add: dict_get_def)
  have dc: "default_config ?w1 = default_config (init empty_fs)"
    by (rule configure_keeps_manager(1))
  have ch: "custom_handlers ?w1 = custom_handlers (init empty_fs)"
    by (rule configure_keeps_manager(2))
  have "\<not> truthy (dict_get (default_config (init empty_fs) ++ ?k2) ''filename'' PNone)"
    by (simp add: init_def init_default_config_def dict_get_def)
  then have nf: "\<not> truthy (dict_get (default_config ?w1 ++ ?k2) ''filename'' PNone)"
    unfolding dc .
  have "custom_handlers (init empty_fs) = []" by (simp add: init_def)
  then have nc: "custom_handlers ?w1 = []" unfolding ch .
  from nf nc have d: "''handlers'' \<in> dom ?k2
         \<or> \<not> (truthy (dict_get (default_config ?w1 ++ ?k2) ''filename'' PNone)
                \<or> custom_handlers ?w1 \<noteq> [])
         \<or> (\<exists>hs. fst (create_handlers py_runtime (default_config ?w1 ++ ?k2) ?w1) = Inr hs)"
    by blast
  from forced_reconfigure_merges_against_defaults [OF f refl d]
  obtain c where calls: "basicConfig_calls ?w2 = basicConfig_calls ?w1 @ [c]"
    and given: "\<forall>k. k \<in> dom ?k2 \<longrightarrow> c k = ?k2 k"
    and dflt: "\<forall>k. k \<notin> dom ?k2 \<and> k \<noteq> ''handlers'' \<longrightarrow> c k = default_config (init empty_fs) k"
    by blast
  from given have "c ''force'' = Some (PBool True)" by simp
  moreover from dflt have "c ''level'' = Some (PInt INFO)"
    by (simp add: init_def init_default_config_def)
  ultimately show ?thesis using f nf nc calls by blast
qed

text \<open>
  C2 as stated fails, on the library as it is: the first forced call hands over level
  DEBUG (10), the second forced call gives no level, and the level it hands over is the
  default INFO (20), not the first call's.
\<close>

theorem forced_reconfigure_keeps_first_counterexample:
  "last (basicConfig_calls
        (snd (configure py_runtime [''level'' \<mapsto> PInt DEBUG, ''force'' \<mapsto> PBool True]
               (init empty_fs)))) ''level'' = Some (PInt 10)
   \<and> ''level'' \<notin> dom [''force'' \<mapsto> PBool True]
   \<and> length (basicConfig_calls
        (snd (configure py_runtime [''force'' \<mapsto> PBool True]
          (snd (configure py_runtime [''level'' \<mapsto> PInt DEBUG, ''force'' \<mapsto> PBool True]
                 (init empty_fs)))))) = 2
   \<and> last (basicConfig_calls
        (snd (configure py_runtime [''force'' \<mapsto> PBool True]
          (snd (configure py_runtime [''level'' \<mapsto> PInt DEBUG, ''force'' \<mapsto> PBool True]
                 (init empty_fs)))))) ''level'' = Some (PInt 20)"
  by (simp add: run_simps)

text \<open>
  C3. When \<^verbatim>\<open>configure\<close> is not skipped, it merges the options over the stored defaults
  and, unless \<^verbatim>\<open>_create_handlers\<close> is called and raises, hands the result to
  \<^verbatim>\<open>logging.basicConfig\<close>, whatever that call then does: in the dictionary handed over
  every key of the options has the value of the options and every other key,
  \<^verbatim>\<open>handlers\<close> apart, has the value of the stored defaults; the handler list, when the
  options give none, is the default or is derived from that same merge of the defaults
  with the options. Nothing of an earlier call enters. When \<^verbatim>\<open>_create_handlers\<close> raises,
  its exception is the outcome and nothing is handed over.
\<close>

theorem configure_merges_options_over_defaults:
  assumes "\<not> (configured w \<and> \<not> truthy (dict_get kwargs ''force'' (PBool False)))"
  shows "((''handlers'' \<in> dom kwargs
           \<or> \<not> (truthy (dict_get (default_config w ++ kwargs) ''filename'' PNone)
                  \<or> custom_handlers w \<noteq> [])
           \<or> (\<exists>hs. fst (create_handlers rt (default_config w ++ kwargs) w) = Inr hs)) \<longrightarrow>
          (\<exists>c. basicConfig_calls (snd (configure rt kwargs w)) = basicConfig_calls w @ [c]
              \<and> root (snd (configure rt kwargs w)) = snd (basicConfig rt c (root w))
              \<and> fst (configure rt kwargs w) = fst (basicConfig rt c (root w))
              \<and> (\<forall>k. k \<in> dom kwargs \<longrightarrow> c k = kwargs k)
              \<and> (\<forall>k. k \<notin> dom kwargs \<and> k \<noteq> ''handlers'' \<longrightarrow> c k = default_config w k)
              \<and> (''handlers'' \<notin> dom kwargs \<longrightarrow>
                   c ''handlers'' = default_config w ''handlers''
                   \<or> (\<exists>hs. c ''handlers'' = Some (PHandlers hs)
                         \<and> fst (create_handlers rt (default_config w ++ kwargs) w) = Inr hs))))
       \<and> (\<forall>e. ''handlers'' \<notin> dom kwargs
               \<and> (truthy (dict_get (default_config w ++ kwargs) ''filename'' PNone)
                    \<or> custom_handlers w \<noteq> [])
               \<and> fst (create_handlers rt (default_config w ++ kwargs) w) = Inl e \<longrightarrow>
             configure rt kwargs w
               = (Some e, snd (create_handlers rt (default_config w ++ kwargs) w))
             \<and> basicConfig_calls (snd (configure rt kwargs w)) = basicConfig_calls w)"
proof -
  have A: "\<exists>c. basicConfig_calls (snd (configure rt kwargs w)) = basicConfig_calls w @ [c]
              \<and> root (snd (configure rt kwargs w)) = snd (basicConfig rt c (root w))
              \<and> fst (configure rt kwargs w) = fst (basicConfig rt c (root w))
              \<and> (\<forall>k. k \<in> dom kwargs \<longrightarrow> c k = kwargs k)
              \<and> (\<forall>k. k \<notin> dom kwargs \<and> k \<noteq> ''handlers'' \<longrightarrow> c k = default_config w k)
              \<and> (''handlers'' \<notin> dom kwargs \<longrightarrow>
                   c ''handlers'' = default_config w ''handlers''
                   \<or> (\<exists>hs. c ''handlers'' = Some (PHandlers hs)
                         \<and> fst (create_handlers rt (default_config w ++ kwargs) w) = Inr hs))"
    if d: "''handlers'' \<in> dom kwargs
           \<or> \<not> (truthy (dict_get (default_config w ++ kwargs) ''filename'' PNone)
                  \<or> custom_handlers w \<noteq> [])
           \<or> (\<exists>hs. fst (create_handlers rt (default_config w ++ kwargs) w) = Inr hs)"
  proof -
    from build_config_returns [OF d] obtain c where c: "fst (build_config rt kwargs w) = Inr c" ..
    from configure_handed_over(1-3) [OF assms c] build_config_merge [OF c]
    show ?thesis by blast
  qed
  have B: "configure rt kwargs w
               = (Some e, snd (create_handlers rt (default_config w ++ kwargs) w))
             \<and> basicConfig_calls (snd (configure rt kwargs w)) = basicConfig_calls w"
    if "''handlers'' \<notin> dom kwargs"
      and "truthy (dict_get (default_config w ++ kwargs) ''filename'' PNone)
           \<or> custom_handlers w \<noteq> []"
      and "fst (create_handlers rt (default_config w ++ kwargs) w) = Inl e" for e
  proof -
    let ?w1 = "snd (create_handlers rt (default_config w ++ kwargs) w)"
    from build_config_raises [OF that] have bc: "build_config rt kwargs w = (Inl e, ?w1)" .
    from configure_derivation_raises [OF assms bc]
    have eq: "configure rt kwargs w = (Some e, ?w1)" .
    moreover have "basicConfig_calls ?w1 = basicConfig_calls w"
      by (subst create_handlers_world) simp
    ultimately show ?thesis by simp
  qed
  from A B show ?thesis by blast
qed

text \<open>
  An instance on the library as it is: a level and nothing else, in a fresh process. The
  merged dictionary is handed over, and the call raises.
\<close>

theorem configure_merges_options_over_defaults_witness:
  "\<not> (configured (init empty_fs)
        \<and> \<not> truthy (dict_get [''level'' \<mapsto> PInt DEBUG] ''force'' (PBool False)))
   \<and> \<not> truthy (dict_get (default_config (init empty_fs) ++ [''level'' \<mapsto> PInt DEBUG])
                   ''filename'' PNone)
   \<and> custom_handlers (init empty_fs) = []
   \<and> fst (configure py_runtime [''level'' \<mapsto> PInt DEBUG] (init empty_fs)) = Some ValueError
   \<and> (\<exists>c. basicConfig_calls (snd (configure py_runtime [''level'' \<mapsto> PInt DEBUG] (init empty_fs)))
             = [c]
          \<and> c ''level'' = Some (PInt DEBUG)
          \<and> c ''encoding'' = Some (PStr ''utf-8'')
          \<and> c ''stream'' = Some PNone)"
proof -
  let ?kw = "[''level'' \<mapsto> PInt DEBUG]"
  let ?w = "init empty_fs"
  have nb: "\<not> (configured ?w \<and> \<not> truthy (dict_get ?kw ''force'' (PBool False)))"
    by (simp add: init_def)
  have nf: "\<not> truthy (dict_get (default_config ?w ++ ?kw) ''filename'' PNone)"
    by (simp add: init_def init_default_config_def dict_get_def)
  have nc: "custom_handlers ?w = []" by (simp add: init_def)
  have out: "fst (configure py_runtime ?kw ?w) = Some ValueError"
    by (simp add: run_simps)
  from nf nc have d: "''handlers'' \<in> dom ?kw
           \<or> \<not> (truthy (dict_get (default_config ?w ++ ?kw) ''filename'' PNone)
                  \<or> custom_handlers ?w \<noteq> [])
           \<or> (\<exists>hs. fst (create_handlers py_runtime (default_config ?w ++ ?kw) ?w) = Inr hs)"
    by blast
  from configure_merges_options_over_defaults [OF nb, of py_runtime] d
  obtain c where c: "basicConfig_calls (snd (configure py_runtime ?kw ?w))
                       = basicConfig_calls ?w @ [c]"
    and given: "\<forall>k. k \<in> dom ?kw \<longrightarrow> c k = ?kw k"
    and dflt: "\<forall>k. k \<notin> dom ?kw \<and> k \<noteq> ''handlers'' \<longrightarrow> c k = default_config ?w k"
    by blast
  from given have "c ''level'' = Some (PInt DEBUG)" by simp
  moreover from dflt have "c ''encoding'' = Some (PStr ''utf-8'')"
    by (simp add: init_def init_default_config_def)
  moreover from dflt have "c ''stream'' = Some PNone"
    by (simp add: init_def init_default_config_def)
  moreover from c have "basicConfig_calls (snd (configure py_runtime ?kw ?w)) = [c]"
    by (simp add: init_def)
  ultimately show ?thesis using nb nf nc out by blast
qed

text \<open>
  C4, as the code has it. When \<^verbatim>\<open>configure\<close> is not skipped: with \<^verbatim>\<open>handlers\<close> among the
  options the caller's value is handed over and nothing is derived; otherwise, when the
  merged file name is truthy or custom handlers are registered and \<^verbatim>\<open>_create_handlers\<close>
  returns, the list it returns is handed over and is exactly the list of the
  specification (console sink unless \<^verbatim>\<open>disable_console\<close>, then the rotating file sink
  when the file name is set, then the custom handlers in registration order, untouched),
  in which a handler of the caller occurs as many times as it is registered; otherwise
  the stored default, which is no list, is handed over.
\<close>

theorem configure_sink_list:
  assumes "\<not> (configured w \<and> \<not> truthy (dict_get kwargs ''force'' (PBool False)))"
  shows "(''handlers'' \<in> dom kwargs \<longrightarrow>
            fs (snd (configure rt kwargs w)) = fs w
            \<and> (\<exists>c. basicConfig_calls (snd (configure rt kwargs w)) = basicConfig_calls w @ [c]
                  \<and> c ''handlers'' = kwargs ''handlers''))
       \<and> (''handlers'' \<notin> dom kwargs
            \<and> (truthy (dict_get (default_config w ++ kwargs) ''filename'' PNone)
                 \<or> custom_handlers w \<noteq> []) \<longrightarrow>
            (\<forall>hs. fst (create_handlers rt (default_config w ++ kwargs) w) = Inr hs \<longrightarrow>
               hs = spec_sinks (default_config w ++ kwargs) (custom_handlers w)
               \<and> (\<forall>i. count_list hs (Handler i) = count_list (custom_handlers w) (Handler i))
               \<and> (\<exists>c. basicConfig_calls (snd (configure rt kwargs w)) = basicConfig_calls w @ [c]
                     \<and> c ''handlers'' = Some (PHandlers hs))))
       \<and> (''handlers'' \<notin> dom kwargs
            \<and> \<not> (truthy (dict_get (default_config w ++ kwargs) ''filename'' PNone)
                   \<or> custom_handlers w \<noteq> []) \<longrightarrow>
            (\<exists>c. basicConfig_calls (snd (configure rt kwargs w)) = basicConfig_calls w @ [c]
                \<and> c ''handlers'' = default_config w ''handlers''))"
proof -
  let ?e = "default_config w ++ kwargs"
  have A: "fs (snd (configure rt kwargs w)) = fs w
            \<and> (\<exists>c. basicConfig_calls (snd (configure rt kwargs w)) = basicConfig_calls w @ [c]
                  \<and> c ''handlers'' = kwargs ''handlers'')"
    if h: "''handlers'' \<in> dom kwargs"
  proof -
    from h have bc: "build_config rt kwargs w = (Inr ?e, w)" by (rule build_config_given)
    then have c: "fst (build_config rt kwargs w) = Inr ?e" by simp
    from h have "?e ''handlers'' = kwargs ''handlers''" by (auto simp: map_add_def)
    with configure_handed_over(1,4) [OF assms c] bc show ?thesis by simp
  qed
  have B: "hs = spec_sinks ?e (custom_handlers w)
               \<and> (\<forall>i. count_list hs (Handler i) = count_list (custom_handlers w) (Handler i))
               \<and> (\<exists>c. basicConfig_calls (snd (configure rt kwargs w)) = basicConfig_calls w @ [c]
                     \<and> c ''handlers'' = Some (PHandlers hs))"
    if nh: "''handlers'' \<notin> dom kwargs"
      and nd: "truthy (dict_get ?e ''filename'' PNone) \<or> custom_handlers w \<noteq> []"
      and hs: "fst (create_handlers rt ?e w) = Inr hs" for hs
  proof -
    obtain w1 where ch: "create_handlers rt ?e w = (Inr hs, w1)"
      using hs by (cases "create_handlers rt ?e w") simp
    from create_handlers_merged [OF ch refl]
    have eq: "hs = spec_sinks ?e (custom_handlers w)" .
    from nh nd ch have "fst (build_config rt kwargs w) = Inr (?e(''handlers'' \<mapsto> PHandlers hs))"
      by (simp add: build_config_derived)
    from configure_handed_over(1) [OF assms this]
    have "\<exists>c. basicConfig_calls (snd (configure rt kwargs w)) = basicConfig_calls w @ [c]
             \<and> c ''handlers'' = Some (PHandlers hs)"
      by simp
    with eq show ?thesis by (simp add: count_spec_sinks)
  qed
  have C: "\<exists>c. basicConfig_calls (snd (configure rt kwargs w)) = basicConfig_calls w @ [c]
                \<and> c ''handlers'' = default_config w ''handlers''"
    if nh: "''handlers'' \<notin> dom kwargs"
      and nd: "\<not> (truthy (dict_get ?e ''filename'' PNone) \<or> custom_handlers w \<noteq> [])"
  proof -
    from nh nd have "fst (build_config rt kwargs w) = Inr ?e" by (simp add: build_config_plain)
    from configure_handed_over(1) [OF assms this] nh show ?thesis
      by (auto simp: map_add_def domIff)
  qed
  from A B C show ?thesis by blast
qed

text \<open>
  An instance on the library as it is, with a file name and one custom handler: console,
  file, custom.
\<close>

theorem configure_sink_list_witness:
  "\<not> (configured (add_custom_handler (Handler 7) (init empty_fs))
        \<and> \<not> truthy (dict_get [''filename'' \<mapsto> PStr ''app.log''] ''force'' (PBool False)))
   \<and> ''handlers'' \<notin> dom [''filename'' \<mapsto> PStr ''app.log'']
   \<and> truthy (dict_get (default_config (add_custom_handler (Handler 7) (init empty_fs))
                          ++ [''filename'' \<mapsto> PStr ''app.log'']) ''filename'' PNone)
   \<and> fst (create_handlers py_runtime
            (default_config (add_custom_handler (Handler 7) (init empty_fs))
               ++ [''filename'' \<mapsto> PStr ''app.log''])
            (add_custom_handler (Handler 7) (init empty_fs)))
       = Inr [StreamHandler Stdout
                (Formatter (PStr ''%(asctime)s - %(name)s - %(levelname)s - %(message)s'')
                           (PStr ''%Y-%m-%d %H:%M:%S''))
                (PInt 20),
              RotatingFileHandler ''app.log'' (PInt 10485760) (PInt 5) (PStr ''utf-8'')
                (Formatter (PStr ''%(asctime)s - %(name)s - %(levelname)s - %(message)s'')
                           (PStr ''%Y-%m-%d %H:%M:%S''))
                (PInt 20),
              Handler 7]
   \<and> (\<exists>c. basicConfig_calls (snd (configure py_runtime [''filename'' \<mapsto> PStr ''app.log'']
                 (add_custom_handler (Handler 7) (init empty_fs)))) = [c]
          \<and> c ''handlers'' = Some (PHandlers
               [StreamHandler Stdout
                  (Formatter (PStr ''%(asctime)s - %(name)s - %(levelname)s - %(message)s'')
                             (PStr ''%Y-%m-%d %H:%M:%S''))
                  (PInt 20),
                RotatingFileHandler ''app.log'' (PInt 10485760) (PInt 5) (PStr ''utf-8'')
                  (Formatter (PStr ''%(asctime)s - %(name)s - %(levelname)s - %(message)s'')
                             (PStr ''%Y-%m-%d %H:%M:%S''))
                  (PInt 20),
                Handler 7]))"
proof -
  let ?kw = "[''filename'' \<mapsto> PStr ''app.log'']"
  let ?w = "add_custom_handler (Handler 7) (init empty_fs)"
  let ?hs = "[StreamHandler Stdout
                (Formatter (PStr ''%(asctime)s - %(name)s - %(levelname)s - %(message)s'')
                           (PStr ''%Y-%m-%d %H:%M:%S''))
                (PInt 20),
              RotatingFileHandler ''app.log'' (PInt 10485760) (PInt 5) (PStr ''utf-8'')
                (Formatter (PStr ''%(asctime)s - %(name)s - %(levelname)s - %(message)s'')
                           (PStr ''%Y-%m-%d %H:%M:%S''))
                (PInt 20),
              Handler 7]"
  have nb: "\<not> (configured ?w \<and> \<not> truthy (dict_get ?kw ''force'' (PBool False)))"
    by (simp add: init_def add_custom_handler_def)
  have nh: "''handlers'' \<notin> dom ?kw" by simp
  have tf: "truthy (dict_get (default_config ?w ++ ?kw) ''filename'' PNone)"
    by (simp add: dict_get_def)
  have ch: "fst (create_handlers py_runtime (default_config ?w ++ ?kw) ?w) = Inr ?hs"
    by (simp add: run_simps add_custom_handler_def)
  from configure_sink_list [OF nb, of py_runtime] nh tf ch
  obtain c where calls: "basicConfig_calls (snd (configure py_runtime ?kw ?w))
                           = basicConfig_calls ?w @ [c]"
    and c: "c ''handlers'' = Some (PHandlers ?hs)"
    by blast
  from calls have "basicConfig_calls (snd (configure py_runtime ?kw ?w)) = [c]"
    by (simp add: init_def add_custom_handler_def)
  with nb nh tf ch c show ?thesis by blast
qed

text \<open>
  C4 as stated fails: a handler that is registered twice is in the list handed over
  twice, not exactly once.
\<close>

theorem registered_twice_listed_twice_counterexample:
  "last (basicConfig_calls
      (snd (configure py_runtime Map.empty
              (add_custom_handler (Handler 0)
                 (add_custom_handler (Handler 0) (init empty_fs)))))) ''handlers''
     = Some (PHandlers
         [StreamHandler Stdout
            (Formatter (PStr ''%(asctime)s - %(name)s - %(levelname)s - %(message)s'')
                       (PStr ''%Y-%m-%d %H:%M:%S''))
            (PInt 20),
          Handler 0,
          Handler 0])"
  by (simp add: run_simps add_custom_handler_def)

text \<open>
  C5. \<^verbatim>\<open>reset\<close> clears the flag, empties the custom handlers and leaves the root logger
  without a handler, which is what these three are in a fresh process; the defaults are
  kept. \<^verbatim>\<open>get_config\<close> then reports \<^verbatim>\<open>configured\<close> false and a handler count of 0,
  and a second \<^verbatim>\<open>reset\<close> changes nothing. (The level of the root logger is not part of
  what \<^verbatim>\<open>reset\<close> touches.)
\<close>

theorem reset_blank_slate:
  "configured (reset w) = False
   \<and> custom_handlers (reset w) = []
   \<and> handlers (root (reset w)) = []
   \<and> default_config (reset w) = default_config w
   \<and> configured (reset w) = configured (init f)
   \<and> custom_handlers (reset w) = custom_handlers (init f)
   \<and> handlers (root (reset w)) = handlers (root (init f))
   \<and> get_config (reset w) ''configured'' = Some (PBool False)
   \<and> get_config (reset w) ''handlers_count'' = Some (PInt 0)
   \<and> reset (reset w) = reset w"
  by (simp add: reset_eq get_config_def init_def)

text \<open>
  C6, on the library as it is. \<^verbatim>\<open>setup_default_config(level='bogus', log_to_file=False)\<close>
  in a fresh process resolves the name to INFO and hands level 20 to
  \<^verbatim>\<open>logging.basicConfig\<close> with \<^verbatim>\<open>force\<close> and with the keys \<^verbatim>\<open>stream\<close> and \<^verbatim>\<open>filename\<close> of
  the defaults; the call raises \<^verbatim>\<open>ValueError\<close>, the manager is not configured and the
  threshold of the root logger stays WARNING (30). The name \<^verbatim>\<open>basic_format\<close> is no level
  name, yet it is found in the module, and the string found is handed over as the level.
\<close>

theorem setup_default_config_bogus_raises:
  "fst (setup_default_config py_runtime ''bogus'' False True ''logs'' (init empty_fs))
     = Some ValueError
   \<and> length (basicConfig_calls
        (snd (setup_default_config py_runtime ''bogus'' False True ''logs'' (init empty_fs)))) = 1
   \<and> last (basicConfig_calls
        (snd (setup_default_config py_runtime ''bogus'' False True ''logs'' (init empty_fs))))
        ''level'' = Some (PInt 20)
   \<and> level (root (snd (setup_default_config py_runtime ''bogus'' False True ''logs''
                          (init empty_fs)))) = 30
   \<and> \<not> configured (snd (setup_default_config py_runtime ''bogus'' False True ''logs''
                          (init empty_fs)))
   \<and> last (basicConfig_calls
        (snd (setup_default_config py_runtime ''basic_format'' False True ''logs''
                (init empty_fs))))
        ''level'' = Some (PStr ''%(levelname)s:%(name)s:%(message)s'')"
  by (simp add: setup_default_config_def run_simps)

text \<open>
  C7. When the log directory can be made (or no file is asked for),
  \<^verbatim>\<open>setup_default_config\<close> is a call of \<^verbatim>\<open>configure\<close> with options in which
  \<^verbatim>\<open>force\<close> is true, \<^verbatim>\<open>filename\<close> is \<^verbatim>\<open>log_dir/application.log\<close> with
  \<^verbatim>\<open>max_bytes\<close> 10 MiB and \<^verbatim>\<open>backup_count\<close> 5 exactly when \<^verbatim>\<open>log_to_file\<close>, and
  \<^verbatim>\<open>disable_console\<close> is true exactly when not \<^verbatim>\<open>log_to_console\<close>. When the call
  returns normally, the manager is configured and the runtime has been called once more
  with these values, whether or not the manager was configured before.
\<close>

theorem setup_default_config_options:
  "((log_to_file \<longrightarrow> fst (path_mkdir True log_dir (fs w)) = None) \<longrightarrow>
      (\<exists>kwargs.
         setup_default_config rt lvl log_to_file log_to_console log_dir w
           = configure rt kwargs
               (w\<lparr>fs := (if log_to_file then snd (path_mkdir True log_dir (fs w)) else fs w)\<rparr>)
         \<and> kwargs ''force'' = Some (PBool True)
         \<and> (if log_to_file
             then kwargs ''filename''
                    = Some (PStr (path_str (path_parts log_dir @ [''application.log''])))
                  \<and> kwargs ''max_bytes'' = Some (PInt 10485760)
                  \<and> kwargs ''backup_count'' = Some (PInt 5)
             else ''filename'' \<notin> dom kwargs)
         \<and> (if log_to_console then ''disable_console'' \<notin> dom kwargs
             else kwargs ''disable_console'' = Some (PBool True))))
   \<and> (setup_default_config rt lvl log_to_file log_to_console log_dir w = (None, w') \<longrightarrow>
        configured w'
        \<and> (\<exists>c. basicConfig_calls w' = basicConfig_calls w @ [c]
              \<and> c ''force'' = Some (PBool True)
              \<and> (log_to_file \<longrightarrow>
                   c ''filename''
                     = Some (PStr (path_str (path_parts log_dir @ [''application.log''])))
                   \<and> c ''max_bytes'' = Some (PInt 10485760)
                   \<and> c ''backup_count'' = Some (PInt 5))
              \<and> (\<not> log_to_console \<longrightarrow> c ''disable_console'' = Some (PBool True))))"
proof -
  let ?w0 = "w\<lparr>fs := (if log_to_file then snd (path_mkdir True log_dir (fs w)) else fs w)\<rparr>"
  have A: "\<exists>kwargs.
         setup_default_config rt lvl log_to_file log_to_console log_dir w
           = configure rt kwargs ?w0
         \<and> kwargs ''force'' = Some (PBool True)
         \<and> (if log_to_file
             then kwargs ''filename''
                    = Some (PStr (path_str (path_parts log_dir @ [''application.log''])))
                  \<and> kwargs ''max_bytes'' = Some (PInt 10485760)
                  \<and> kwargs ''backup_count'' = Some (PInt 5)
             else ''filename'' \<notin> dom kwargs)
         \<and> (if log_to_console then ''disable_console'' \<notin> dom kwargs
             else kwargs ''disable_console'' = Some (PBool True))"
    if "log_to_file \<longrightarrow> fst (path_mkdir True log_dir (fs w)) = None"
    using setup_default_config_delegates [OF that, of rt lvl log_to_console] by blast
  have B: "configured w'
        \<and> (\<exists>c. basicConfig_calls w' = basicConfig_calls w @ [c]
              \<and> c ''force'' = Some (PBool True)
              \<and> (log_to_file \<longrightarrow>
                   c ''filename''
                     = Some (PStr (path_str (path_parts log_dir @ [''application.log''])))
                   \<and> c ''max_bytes'' = Some (PInt 10485760)
                   \<and> c ''backup_count'' = Some (PInt 5))
              \<and> (\<not> log_to_console \<longrightarrow> c ''disable_console'' = Some (PBool True)))"
    if ok: "setup_default_config rt lvl log_to_file log_to_console log_dir w = (None, w')"
  proof -
    from ok have "fst (setup_default_config rt lvl log_to_file log_to_console log_dir w) = None"
      by simp
    then have "log_to_file \<longrightarrow> fst (path_mkdir True log_dir (fs w)) = None"
      by (rule setup_default_config_mkdir)
    from setup_default_config_delegates [OF this, of rt lvl log_to_console]
    obtain kwargs where del: "setup_default_config rt lvl log_to_file log_to_console log_dir w
                                = configure rt kwargs ?w0"
      and force: "kwargs ''force'' = Some (PBool True)"
      and fl: "if log_to_file
             then kwargs ''filename''
                    = Some (PStr (path_str (path_parts log_dir @ [''application.log''])))
                  \<and> kwargs ''max_bytes'' = Some (PInt 10485760)
                  \<and> kwargs ''backup_count'' = Some (PInt 5)
             else ''filename'' \<notin> dom kwargs"
      and console: "if log_to_console then ''disable_console'' \<notin> dom kwargs
             else kwargs ''disable_console'' = Some (PBool True)"
      by blast
    from force have t: "truthy (dict_get kwargs ''force'' (PBool False))"
      by (simp add: dict_get_def)
    from del ok have "configure rt kwargs ?w0 = (None, w')" by simp
    from configure_forced_call [OF t this]
    obtain c where calls: "basicConfig_calls w' = basicConfig_calls ?w0 @ [c]"
      and cf: "configured w'"
      and given: "\<forall>k. k \<in> dom kwargs \<longrightarrow> c k = kwargs k"
      by blast
    from given force have 1: "c ''force'' = Some (PBool True)" by (auto simp: domIff)
    from given fl have 2: "c ''filename''
                     = Some (PStr (path_str (path_parts log_dir @ [''application.log''])))
                   \<and> c ''max_bytes'' = Some (PInt 10485760)
                   \<and> c ''backup_count'' = Some (PInt 5)" if log_to_file
      using that by (auto simp: domIff)
    from given console have 3: "c ''disable_console'' = Some (PBool True)" if "\<not> log_to_console"
      using that by (auto simp: domIff)
    from calls have "basicConfig_calls w' = basicConfig_calls w @ [c]" by simp
    with cf 1 2 3 show ?thesis by blast
  qed
  from A B show ?thesis by blast
qed

text \<open>An instance on a manager that is configured already.\<close>

theorem setup_default_config_options_witness:
  "configured ((init empty_fs)\<lparr>configured := True\<rparr>)
   \<and> fst (path_mkdir True ''logs'' (fs ((init empty_fs)\<lparr>configured := True\<rparr>))) = None
   \<and> fst (setup_default_config spec_runtime ''DEBUG'' True False ''logs''
            ((init empty_fs)\<lparr>configured := True\<rparr>)) = None
   \<and> (\<exists>c. basicConfig_calls
               (snd (setup_default_config spec_runtime ''DEBUG'' True False ''logs''
                       ((init empty_fs)\<lparr>configured := True\<rparr>))) = [c]
          \<and> c ''force'' = Some (PBool True)
          \<and> c ''filename'' = Some (PStr ''logs/application.log'')
          \<and> c ''max_bytes'' = Some (PInt 10485760)
          \<and> c ''backup_count'' = Some (PInt 5)
          \<and> c ''disable_console'' = Some (PBool True))"
proof -
  let ?w = "(init empty_fs)\<lparr>configured := True\<rparr>"
  let ?r = "setup_default_config spec_runtime ''DEBUG'' True False ''logs'' ?w"
  have cf: "configured ?w" by simp
  have mk: "fst (path_mkdir True ''logs'' (fs ?w)) = None"
    by (simp add: run_simps)
  have ok: "fst ?r = None"
    by (simp add: setup_default_config_def run_simps ascii_upper_def upper_char_def)
  then have eq: "?r = (None, snd ?r)" by (metis prod.collapse)
  have p: "path_str (path_parts ''logs'' @ [''application.log'']) = ''logs/application.log''"
    by (simp add: path_str_def path_parts_def)
  from setup_default_config_options
         [where rt = spec_runtime and lvl = "''DEBUG''" and log_to_file = True
            and log_to_console = False and log_dir = "''logs''" and w = ?w and w' = "snd ?r"] eq
  obtain c where cl: "basicConfig_calls (snd ?r) = basicConfig_calls ?w @ [c]"
    and c: "c ''force'' = Some (PBool True)"
      "c ''filename'' = Some (PStr (path_str (path_parts ''logs'' @ [''application.log''])))"
      "c ''max_bytes'' = Some (PInt 10485760)" "c ''backup_count'' = Some (PInt 5)"
      "c ''disable_console'' = Some (PBool True)"
    by blast
  from cl have "basicConfig_calls (snd ?r) = [c]" by (simp add: init_def)
  moreover from c(2) p have "c ''filename'' = Some (PStr ''logs/application.log'')" by simp
  ultimately show ?thesis using cf mk ok c(1,3,4,5) by blast
qed

text \<open>
  C8, on the code. For \<^verbatim>\<open>logs/app.log\<close> in an empty working directory \<^verbatim>\<open>configure\<close> makes
  the directory \<^verbatim>\<open>logs\<close>. For \<^verbatim>\<open>a/b/app.log\<close> it calls \<^verbatim>\<open>mkdir\<close> on \<^verbatim>\<open>a/b\<close> without
  \<^verbatim>\<open>parents\<close>: the call raises \<^verbatim>\<open>FileNotFoundError\<close>, neither \<^verbatim>\<open>a\<close> nor \<^verbatim>\<open>a/b\<close> is made, no
  sink is derived and the runtime is never called.
\<close>

theorem nested_log_directory_raises:
  "dirs (fs (snd (configure py_runtime [''filename'' \<mapsto> PStr ''logs/app.log'']
                    (init empty_fs)))) = {[''logs'']}
   \<and> path_parts (dirname ''a/b/app.log'') = [''a'', ''b'']
   \<and> fst (configure py_runtime [''filename'' \<mapsto> PStr ''a/b/app.log''] (init empty_fs))
       = Some FileNotFoundError
   \<and> \<not> is_dir (fs (snd (configure py_runtime [''filename'' \<mapsto> PStr ''a/b/app.log'']
                               (init empty_fs)))) [''a'', ''b'']
   \<and> \<not> is_dir (fs (snd (configure py_runtime [''filename'' \<mapsto> PStr ''a/b/app.log'']
                               (init empty_fs)))) [''a'']
   \<and> basicConfig_calls (snd (configure py_runtime [''filename'' \<mapsto> PStr ''a/b/app.log'']
                               (init empty_fs))) = []"
  by (simp add: run_simps)

text \<open>
  C9, as the code has it. \<^verbatim>\<open>add_custom_handler\<close> appends its argument and checks
  nothing: after any sequence of registrations the custom handlers are the earlier ones
  followed by the registered ones in call order, repetitions included, and they are free
  of repetitions exactly when the earlier ones are, the registered ones are, and no
  registered one was there before.
\<close>

theorem add_custom_handler_appends:
  "custom_handlers (add_custom_handler h w) = custom_handlers w @ [h]
   \<and> custom_handlers (fold add_custom_handler hs w) = custom_handlers w @ hs
   \<and> distinct (custom_handlers (fold add_custom_handler hs w))
       = (distinct (custom_handlers w) \<and> distinct hs \<and> set (custom_handlers w) \<inter> set hs = {})"
  by (simp add: custom_handlers_fold_add) (simp add: add_custom_handler_def)

text \<open>
  C9 as stated fails: registering the same handler object twice leaves it twice in the
  custom handlers.
\<close>

theorem add_custom_handler_twice_counterexample:
  "\<not> distinct (custom_handlers
       (add_custom_handler (Handler 0) (add_custom_handler (Handler 0) (init empty_fs))))"
  by (simp add: add_custom_handler_def init_def)

text \<open>
  C10. When the options contain the key \<^verbatim>\<open>handlers\<close>, whatever its value, and the call
  is not skipped, \<^verbatim>\<open>configure\<close> derives nothing: the file system is untouched, the
  runtime is called with the defaults overridden by the options, in which \<^verbatim>\<open>handlers\<close>
  has the caller's value, and the outcome and the root logger are what the runtime makes
  of that call. Neither a file name nor registered custom handlers change this.
\<close>

theorem explicit_handlers_key_skips_derivation:
  assumes "''handlers'' \<in> dom kwargs"
    and "\<not> (configured w \<and> \<not> truthy (dict_get kwargs ''force'' (PBool False)))"
  shows "fs (snd (configure rt kwargs w)) = fs w
       \<and> basicConfig_calls (snd (configure rt kwargs w))
           = basicConfig_calls w @ [default_config w ++ kwargs]
       \<and> (default_config w ++ kwargs) ''handlers'' = kwargs ''handlers''
       \<and> fst (configure rt kwargs w) = fst (basicConfig rt (default_config w ++ kwargs) (root w))
       \<and> root (snd (configure rt kwargs w)) = snd (basicConfig rt (default_config w ++ kwargs) (root w))"
proof -
  from assms(1) have "(default_config w ++ kwargs) ''handlers'' = kwargs ''handlers''"
    by (auto simp: map_add_def split: option.splits)
  then show ?thesis
    using configure_given [OF assms, of rt]
    by (simp add: Let_def split: option.splits)
qed

text \<open>
  An instance: \<^verbatim>\<open>handlers=None\<close> with a file name in a missing directory and one custom
  handler registered.
\<close>

theorem explicit_handlers_key_skips_derivation_witness:
  "''handlers'' \<in> dom [''handlers'' \<mapsto> PNone, ''filename'' \<mapsto> PStr ''a/b/app.log'']
   \<and> \<not> (configured (add_custom_handler (Handler 0) (init empty_fs))
        \<and> \<not> truthy (dict_get [''handlers'' \<mapsto> PNone, ''filename'' \<mapsto> PStr ''a/b/app.log'']
                       ''force'' (PBool False)))
   \<and> truthy (dict_get (default_config (add_custom_handler (Handler 0) (init empty_fs))
                         ++ [''handlers'' \<mapsto> PNone, ''filename'' \<mapsto> PStr ''a/b/app.log''])
                       ''filename'' PNone)
   \<and> custom_handlers (add_custom_handler (Handler 0) (init empty_fs)) \<noteq> []
   \<and> fst (configure spec_runtime [''handlers'' \<mapsto> PNone, ''filename'' \<mapsto> PStr ''a/b/app.log'']
            (add_custom_handler (Handler 0) (init empty_fs))) = None
   \<and> fs (snd (configure spec_runtime [''handlers'' \<mapsto> PNone, ''filename'' \<mapsto> PStr ''a/b/app.log'']
            (add_custom_handler (Handler 0) (init empty_fs)))) = empty_fs
   \<and> last (basicConfig_calls
        (snd (configure spec_runtime [''handlers'' \<mapsto> PNone, ''filename'' \<mapsto> PStr ''a/b/app.log'']
            (add_custom_handler (Handler 0) (init empty_fs))))) ''handlers'' = Some PNone"
  using explicit_handlers_key_skips_derivation
    [of "[''handlers'' \<mapsto> PNone, ''filename'' \<mapsto> PStr ''a/b/app.log'']"
        "add_custom_handler (Handler 0) (init empty_fs)" spec_runtime]
  by (simp add: run_simps add_custom_handler_def)

end
